theory Spec2Isabelle
  imports Main
begin

section \<open>The activity log model of \<open>src/db/models/ActivityLogs.js\<close>\<close>

subsection \<open>Constants\<close>

text \<open>
  Modelled from the spec: the module \<open>data/constants\<close> that \<open>ActivityLogs.js\<close> imports
  is not part of the sources. The four enumerations carry the member names that
  \<open>ActivityLogs.js\<close> uses (\<open>ACTIVITY_TYPES.SEGMENT\<close> is \<open>ACTIVITY_TYPES_SEGMENT\<close>, and so
  on) and the members the specification lists; members with different names are
  different values.
\<close>

datatype ACTIVITY_TYPES =
    ACTIVITY_TYPES_INTERNAL_NOTE
  | ACTIVITY_TYPES_CONVERSATION_MESSAGE
  | ACTIVITY_TYPES_SEGMENT
  | ACTIVITY_TYPES_CUSTOMER
  | ACTIVITY_TYPES_COMPANY

datatype ACTIVITY_ACTIONS =
    ACTIVITY_ACTIONS_CREATE
  | ACTIVITY_ACTIONS_UPDATE

datatype ACTIVITY_PERFORMER_TYPES =
    ACTIVITY_PERFORMER_TYPES_SYSTEM
  | ACTIVITY_PERFORMER_TYPES_USER
  | ACTIVITY_PERFORMER_TYPES_CUSTOMER

datatype COC_CONTENT_TYPES =
    COC_CONTENT_TYPES_CUSTOMER
  | COC_CONTENT_TYPES_COMPANY

subsection \<open>The schema\<close>

text \<open>
  The three embedded schemas and the schema of the collection. \<open>performedBy.id\<close>, which
  the schema does not require, is optional. \<open>coc.id\<close> is optional in a document as the
  methods build it, since they copy it from their arguments; the schema requires it, and
  the store rejects a document without it (see \<open>create\<close>). The primary key \<open>_id\<close> is
  \<open>log_id\<close>: the store assigns it on insertion, as it assigns \<open>createdAt\<close>.
\<close>

record ActionPerformer =
  performer_type :: ACTIVITY_PERFORMER_TYPES
  performer_id :: "string option"

record Activity =
  activity_type :: ACTIVITY_TYPES
  activity_action :: ACTIVITY_ACTIONS
  activity_content :: string
  activity_id :: string

record COC =
  coc_id :: "string option"
  coc_type :: COC_CONTENT_TYPES

record ActivityLog =
  log_id :: nat
  activity :: Activity
  performedBy :: ActionPerformer
  coc :: COC
  createdAt :: nat

subsection \<open>The documents the helpers receive\<close>


record User =
  user_id :: "string option"

record Message =
  message_id :: string
  message_content :: string

record Customer =
  customer_id :: "string option"
  companyIds :: "string list option"

record Segment =
  segment_id :: string
  segment_name :: string
  segment_contentType :: COC_CONTENT_TYPES

record Target =
  target_id :: "string option"

text \<open>The customer or company document that a registration log is written for.\<close>

record Registrant =
  registrant_id :: string
  registrant_name :: string

text \<open>
  JavaScript's test \<open>if (x)\<close> on a value that is a string or absent: the absent value and
  the empty string are falsy. The store's check of a required string draws the same
  line: it rejects the absent value and the empty string.
\<close>

fun truthy :: "string option \<Rightarrow> bool" where
  "truthy None = False"
| "truthy (Some s) = (s \<noteq> [])"

subsection \<open>The store\<close>

text \<open>
  The collection behind the model class: its documents in insertion order, the next
  primary key, the clock that stamps \<open>createdAt\<close>, and two counters of the calls made to
  the store (\<open>findOne\<close>, and \<open>create\<close> whether it inserts or rejects), which make "no store
  access" a property of the state.
\<close>

record Store =
  docs :: "ActivityLog list"
  next_id :: nat
  clock :: nat
  finds :: nat
  creates :: nat

text \<open>
  A query is a list of conditions on dotted paths, all of which must hold. \<open>findOne\<close>
  returns the first document, in insertion order, that satisfies the query.
\<close>

datatype cond =
    Activity_type ACTIVITY_TYPES
  | Activity_action ACTIVITY_ACTIONS
  | Activity_id string
  | Coc_type COC_CONTENT_TYPES
  | Coc_id "string option"
  | PerformedBy_type ACTIVITY_PERFORMER_TYPES

fun holds :: "ActivityLog \<Rightarrow> cond \<Rightarrow> bool" where
  "holds d (Activity_type t) = (activity_type (activity d) = t)"
| "holds d (Activity_action a) = (activity_action (activity d) = a)"
| "holds d (Activity_id i) = (activity_id (activity d) = i)"
| "holds d (Coc_type t) = (coc_type (coc d) = t)"
| "holds d (Coc_id i) = (coc_id (coc d) = i)"
| "holds d (PerformedBy_type t) = (performer_type (performedBy d) = t)"

definition matches :: "cond list \<Rightarrow> ActivityLog \<Rightarrow> bool" where
  "matches q d = list_all (holds d) q"

definition findOne :: "Store \<Rightarrow> cond list \<Rightarrow> ActivityLog option \<times> Store" where
  "findOne st q = (find (matches q) (docs st), st\<lparr>finds := Suc (finds st)\<rparr>)"

text \<open>
  The errors of the methods: the \<open>Error\<close> that two of them throw, with its message, and
  the validation error of the store, with the path it rejects.
\<close>

datatype error = Error string | ValidationError string

text \<open>
  \<open>create\<close> validates the document against the schema before it stores it. The schema
  declares \<open>coc.id\<close> a required string (\<open>required: true\<close>): a document whose \<open>coc.id\<close> is
  absent or the empty string is rejected with a validation error and nothing is stored.
  The other required fields and the enumerations hold of every document of the model by
  its type. An accepted document is completed with its primary key and date and appended.
\<close>

definition create ::
  "Store \<Rightarrow> ActionPerformer \<Rightarrow> Activity \<Rightarrow> COC \<Rightarrow> (error + ActivityLog) \<times> Store" where
  "create st pb a c =
     (if truthy (coc_id c) then
        let d = \<lparr>log_id = next_id st, activity = a, performedBy = pb, coc = c,
                 createdAt = clock st\<rparr>
        in (Inr d, st\<lparr>docs := docs st @ [d], next_id := Suc (next_id st),
                      creates := Suc (creates st)\<rparr>)
      else (Inl (ValidationError ''coc.id''), st\<lparr>creates := Suc (creates st)\<rparr>))"

subsection \<open>The static methods of \<open>ActivityLog\<close>\<close>

text \<open>
  Each method takes the store and returns its result with the store it leaves. The
  result is a sum: \<open>Inl\<close> is the error that rejects the method's promise, \<open>Inr\<close> the value
  it resolves to (\<open>None\<close> for \<open>undefined\<close>).
\<close>

definition createDoc ::
  "Store \<Rightarrow> ActionPerformer option \<Rightarrow> Activity \<Rightarrow> COC \<Rightarrow> (error + ActivityLog) \<times> Store" where
  "createDoc st performer a c =
     (let performedBy0 = \<lparr>performer_type = ACTIVITY_PERFORMER_TYPES_SYSTEM,
                          performer_id = None\<rparr>;
          performedBy1 = (case performer of None \<Rightarrow> performedBy0 | Some p \<Rightarrow> p)
      in create st performedBy1 a c)"


definition cocFindOne ::
  "Store \<Rightarrow> string \<Rightarrow> string option \<Rightarrow> COC_CONTENT_TYPES \<Rightarrow> ActivityLog option \<times> Store"
  where
  "cocFindOne st messageId cocId cocType =
     findOne st
       [Activity_type ACTIVITY_TYPES_CONVERSATION_MESSAGE,
        Activity_action ACTIVITY_ACTIONS_CREATE,
        Activity_id messageId,
        Coc_type cocType,
        PerformedBy_type ACTIVITY_PERFORMER_TYPES_CUSTOMER,
        Coc_id cocId]"

definition cocCreate ::
  "Store \<Rightarrow> string \<Rightarrow> string \<Rightarrow> string option \<Rightarrow> COC_CONTENT_TYPES \<Rightarrow>
     (error + ActivityLog) \<times> Store" where
  "cocCreate st messageId content cocId cocType =
     createDoc st
       (Some \<lparr>performer_type = ACTIVITY_PERFORMER_TYPES_CUSTOMER, performer_id = None\<rparr>)
       \<lparr>activity_type = ACTIVITY_TYPES_CONVERSATION_MESSAGE,
        activity_action = ACTIVITY_ACTIONS_CREATE,
        activity_content = content,
        activity_id = messageId\<rparr>
       \<lparr>coc_id = cocId, coc_type = cocType\<rparr>"

text \<open>
  The \<open>for ... of\<close> loop of \<open>createConversationMessageLog\<close> over \<open>customer.companyIds\<close>:
  each iteration awaits its query, and its insertion, before the next one starts. An
  insertion that the store rejects ends the loop, and the call, with that error.
\<close>

fun companyLoop :: "Store \<Rightarrow> Message \<Rightarrow> string list \<Rightarrow> (error + unit) \<times> Store" where
  "companyLoop st message [] = (Inr (), st)"
| "companyLoop st message (companyId # rest) =
     (case cocFindOne st (message_id message) (Some companyId) COC_CONTENT_TYPES_COMPANY of
        (None, st1) \<Rightarrow>
          (case cocCreate st1 (message_id message) (message_content message) (Some companyId)
                  COC_CONTENT_TYPES_COMPANY of
             (Inl e, st2) \<Rightarrow> (Inl e, st2)
           | (Inr d, st2) \<Rightarrow> companyLoop st2 message rest)
      | (Some foundLog, st1) \<Rightarrow> companyLoop st1 message rest)"

definition createConversationMessageLog ::
  "Store \<Rightarrow> Message \<Rightarrow> Customer option \<Rightarrow> (error + ActivityLog option) \<times> Store" where
  "createConversationMessageLog st message customer =
     (let thrown =
            (Inl (Error (CHR 0x27 # ''customer'' @ CHR 0x27 #
                         '' must be supplied when adding activity log for conversations'')),
             st)
      in case customer of
           None \<Rightarrow> thrown
         | Some c \<Rightarrow>
             if \<not> truthy (customer_id c) then thrown
             else
               (case (case companyIds c of
                        None \<Rightarrow> (Inr (), st)
                      | Some ids \<Rightarrow>
                          if length ids > 0 then companyLoop st message ids
                          else (Inr (), st)) of
                  (Inl e, st1) \<Rightarrow> (Inl e, st1)
                | (Inr u, st1) \<Rightarrow>
                    (case cocFindOne st1 (message_id message) (customer_id c)
                            COC_CONTENT_TYPES_CUSTOMER of
                       (None, st2) \<Rightarrow>
                         (case cocCreate st2 (message_id message) (message_content message)
                                 (customer_id c) COC_CONTENT_TYPES_CUSTOMER of
                            (Inl e, st3) \<Rightarrow> (Inl e, st3)
                          | (Inr d, st3) \<Rightarrow> (Inr (Some d), st3))
                     | (Some foundLog, st2) \<Rightarrow> (Inr None, st2))))"

definition createSegmentLog ::
  "Store \<Rightarrow> Segment \<Rightarrow> Target option \<Rightarrow> (error + ActivityLog) \<times> Store" where
  "createSegmentLog st segment customer =
     (case customer of
        None \<Rightarrow> (Inl (Error ''customer must be supplied''), st)
      | Some c \<Rightarrow>
          (case findOne st
                  [Activity_type ACTIVITY_TYPES_SEGMENT,
                   Activity_action ACTIVITY_ACTIONS_CREATE,
                   Activity_id (segment_id segment),
                   Coc_type (segment_contentType segment),
                   Coc_id (target_id c)] of
             (Some foundSegment, st1) \<Rightarrow> (Inr foundSegment, st1)
           | (None, st1) \<Rightarrow>
               createDoc st1 None
                 \<lparr>activity_type = ACTIVITY_TYPES_SEGMENT,
                  activity_action = ACTIVITY_ACTIONS_CREATE,
                  activity_content = segment_name segment,
                  activity_id = segment_id segment\<rparr>
                 \<lparr>coc_id = target_id c, coc_type = segment_contentType segment\<rparr>))"

definition registrationPerformer :: "User option \<Rightarrow> ActionPerformer option" where
  "registrationPerformer user =
     (case user of
        None \<Rightarrow> None
      | Some u \<Rightarrow>
          if truthy (user_id u) then
            Some \<lparr>performer_type = ACTIVITY_PERFORMER_TYPES_USER, performer_id = user_id u\<rparr>
          else None)"

definition createCustomerRegistrationLog ::
  "Store \<Rightarrow> Registrant \<Rightarrow> User option \<Rightarrow> (error + ActivityLog) \<times> Store" where
  "createCustomerRegistrationLog st customer user =
     createDoc st (registrationPerformer user)
       \<lparr>activity_type = ACTIVITY_TYPES_CUSTOMER,
        activity_action = ACTIVITY_ACTIONS_CREATE,
        activity_content = registrant_name customer,
        activity_id = registrant_id customer\<rparr>
       \<lparr>coc_id = Some (registrant_id customer), coc_type = COC_CONTENT_TYPES_CUSTOMER\<rparr>"

definition createCompanyRegistrationLog ::
  "Store \<Rightarrow> Registrant \<Rightarrow> User option \<Rightarrow> (error + ActivityLog) \<times> Store" where
  "createCompanyRegistrationLog st company user =
     createDoc st (registrationPerformer user)
       \<lparr>activity_type = ACTIVITY_TYPES_COMPANY,
        activity_action = ACTIVITY_ACTIONS_CREATE,
        activity_content = registrant_name company,
        activity_id = registrant_id company\<rparr>
       \<lparr>coc_id = Some (registrant_id company), coc_type = COC_CONTENT_TYPES_COMPANY\<rparr>"

subsection \<open>Notions used to state the properties\<close>

text \<open>
  The query of \<open>cocFindOne\<close> as a value, and the records of a store's collection that it
  selects: the records that the duplicate check of \<open>createConversationMessageLog\<close> takes
  for the log of a message at a customer or company.
\<close>

definition cocKey :: "string \<Rightarrow> string option \<Rightarrow> COC_CONTENT_TYPES \<Rightarrow> cond list" where
  "cocKey messageId cocId cocType =
     [Activity_type ACTIVITY_TYPES_CONVERSATION_MESSAGE,
      Activity_action ACTIVITY_ACTIONS_CREATE,
      Activity_id messageId,
      Coc_type cocType,
      PerformedBy_type ACTIVITY_PERFORMER_TYPES_CUSTOMER,
      Coc_id cocId]"

definition cocRecords ::
  "Store \<Rightarrow> string \<Rightarrow> string option \<Rightarrow> COC_CONTENT_TYPES \<Rightarrow> ActivityLog list" where
  "cocRecords st messageId cocId cocType =
     filter (matches (cocKey messageId cocId cocType)) (docs st)"


text \<open>The record that \<open>cocCreate\<close> hands to the store, as the store completes it.\<close>

definition cocDoc ::
  "Store \<Rightarrow> string \<Rightarrow> string \<Rightarrow> string option \<Rightarrow> COC_CONTENT_TYPES \<Rightarrow> ActivityLog" where
  "cocDoc st messageId content cocId cocType =
     \<lparr>log_id = next_id st,
      activity = \<lparr>activity_type = ACTIVITY_TYPES_CONVERSATION_MESSAGE,
                  activity_action = ACTIVITY_ACTIONS_CREATE,
                  activity_content = content,
                  activity_id = messageId\<rparr>,
      performedBy = \<lparr>performer_type = ACTIVITY_PERFORMER_TYPES_CUSTOMER,
                     performer_id = None\<rparr>,
      coc = \<lparr>coc_id = cocId, coc_type = cocType\<rparr>,
      createdAt = clock st\<rparr>"


text \<open>
  A record as \<open>cocCreate\<close> writes it for a message and a customer or company, whatever
  primary key and date the store gave it.
\<close>

definition conversationRecord ::
  "Message \<Rightarrow> string option \<Rightarrow> COC_CONTENT_TYPES \<Rightarrow> ActivityLog \<Rightarrow> bool" where
  "conversationRecord m cocId cocType d \<longleftrightarrow>
     activity d = \<lparr>activity_type = ACTIVITY_TYPES_CONVERSATION_MESSAGE,
                   activity_action = ACTIVITY_ACTIONS_CREATE,
                   activity_content = message_content m,
                   activity_id = message_id m\<rparr> \<and>
     performedBy d = \<lparr>performer_type = ACTIVITY_PERFORMER_TYPES_CUSTOMER,
                      performer_id = None\<rparr> \<and>
     coc d = \<lparr>coc_id = cocId, coc_type = cocType\<rparr>"

text \<open>
  Every record of the store for a message and a customer or company is performed by System
  or by User.
\<close>

definition otherPerformersOnly ::
  "Store \<Rightarrow> string \<Rightarrow> string option \<Rightarrow> COC_CONTENT_TYPES \<Rightarrow> bool" where
  "otherPerformersOnly st messageId cocId cocType =
     list_all
       (\<lambda>d. activity_type (activity d) = ACTIVITY_TYPES_CONVERSATION_MESSAGE \<and>
            activity_action (activity d) = ACTIVITY_ACTIONS_CREATE \<and>
            activity_id (activity d) = messageId \<and>
            coc d = \<lparr>coc_id = cocId, coc_type = cocType\<rparr> \<longrightarrow>
            performer_type (performedBy d) = ACTIVITY_PERFORMER_TYPES_SYSTEM \<or>
            performer_type (performedBy d) = ACTIVITY_PERFORMER_TYPES_USER)
       (docs st)"

text \<open>The company identifiers of a customer, none when the field is absent.\<close>

definition companyIdList :: "Customer \<Rightarrow> string list" where
  "companyIdList c = (case companyIds c of None \<Rightarrow> [] | Some ids \<Rightarrow> ids)"

text \<open>The records a call has appended to the collection.\<close>

definition inserted :: "Store \<Rightarrow> Store \<Rightarrow> ActivityLog list" where
  "inserted st st' = drop (length (docs st)) (docs st')"

text \<open>
  The loop over a list of companies, run on a collection, is rejected at once: every
  company up to the first empty identifier has its record already, and the empty one has
  none.
\<close>

fun blocked :: "ActivityLog list \<Rightarrow> string \<Rightarrow> string list \<Rightarrow> bool" where
  "blocked ds messageId [] = False"
| "blocked ds messageId (companyId # rest) =
     (if filter (matches (cocKey messageId (Some companyId) COC_CONTENT_TYPES_COMPANY)) ds \<noteq> []
      then blocked ds messageId rest
      else companyId = [])"

subsection \<open>Example data\<close>

definition ex_store :: Store where
  "ex_store = \<lparr>docs = [], next_id = 0, clock = 0, finds = 0, creates = 0\<rparr>"

definition ex_message :: Message where
  "ex_message = \<lparr>message_id = ''m1'', message_content = ''hello''\<rparr>"

definition ex_customer :: Customer where
  "ex_customer = \<lparr>customer_id = Some ''c1'', companyIds = Some [''a'', ''b'']\<rparr>"

definition ex_customer_alone :: Customer where
  "ex_customer_alone = \<lparr>customer_id = Some ''c1'', companyIds = None\<rparr>"

definition ex_customer_repeated :: Customer where
  "ex_customer_repeated = \<lparr>customer_id = Some ''c1'', companyIds = Some [''a'', ''b'', ''a'']\<rparr>"

definition ex_customer_empty_company :: Customer where
  "ex_customer_empty_company = \<lparr>customer_id = Some ''c1'', companyIds = Some [''a'', '''']\<rparr>"








definition ex_registrant :: Registrant where
  "ex_registrant = \<lparr>registrant_id = ''c1'', registrant_name = ''Acme''\<rparr>"

definition ex_store_customer_logged :: Store where
  "ex_store_customer_logged =
     \<lparr>docs = [cocDoc ex_store ''m1'' ''hello'' (Some ''c1'') COC_CONTENT_TYPES_CUSTOMER],
      next_id = 1, clock = 0, finds = 0, creates = 1\<rparr>"

definition ex_store_other_performers :: Store where
  "ex_store_other_performers =
     \<lparr>docs = [(cocDoc ex_store ''m1'' ''hello'' (Some ''c1'') COC_CONTENT_TYPES_CUSTOMER)
                 \<lparr>performedBy := \<lparr>performer_type = ACTIVITY_PERFORMER_TYPES_SYSTEM,
                                   performer_id = None\<rparr>\<rparr>,
              (cocDoc ex_store ''m1'' ''hello'' (Some ''c1'') COC_CONTENT_TYPES_CUSTOMER)
                 \<lparr>log_id := 1,
                  performedBy := \<lparr>performer_type = ACTIVITY_PERFORMER_TYPES_USER,
                                   performer_id = Some ''u1''\<rparr>\<rparr>],
      next_id = 2, clock = 0, finds = 0, creates = 2\<rparr>"

definition ex_store_company_by_system :: Store where
  "ex_store_company_by_system =
     \<lparr>docs = [(cocDoc ex_store ''m1'' ''hello'' (Some ''a'') COC_CONTENT_TYPES_COMPANY)
                 \<lparr>performedBy := \<lparr>performer_type = ACTIVITY_PERFORMER_TYPES_SYSTEM,
                                   performer_id = None\<rparr>\<rparr>,
              cocDoc ex_store ''m1'' ''hello'' (Some ''b'') COC_CONTENT_TYPES_COMPANY],
      next_id = 2, clock = 0, finds = 0, creates = 2\<rparr>"

definition ex_store_duplicates :: Store where
  "ex_store_duplicates =
     \<lparr>docs = [cocDoc ex_store ''m1'' ''hello'' (Some ''c1'') COC_CONTENT_TYPES_CUSTOMER,
              (cocDoc ex_store ''m1'' ''hello'' (Some ''c1'') COC_CONTENT_TYPES_CUSTOMER)
                 \<lparr>log_id := 1\<rparr>],
      next_id = 2, clock = 0, finds = 0, creates = 2\<rparr>"


definition ex_store_company_logged :: Store where
  "ex_store_company_logged =
     \<lparr>docs = [cocDoc ex_store ''m1'' ''hello'' (Some ''a'') COC_CONTENT_TYPES_COMPANY],
      next_id = 1, clock = 0, finds = 0, creates = 1\<rparr>"

section \<open>Properties\<close>

subsection \<open>The store and the two conversation helpers\<close>

lemma matches_cocKey:
  "matches (cocKey mid cid ct) d \<longleftrightarrow>
     activity_type (activity d) = ACTIVITY_TYPES_CONVERSATION_MESSAGE \<and>
     activity_action (activity d) = ACTIVITY_ACTIONS_CREATE \<and>
     activity_id (activity d) = mid \<and>
     coc_type (coc d) = ct \<and>
     performer_type (performedBy d) = ACTIVITY_PERFORMER_TYPES_CUSTOMER \<and>
     coc_id (coc d) = cid"
  by (simp add: matches_def cocKey_def)

lemma cocFindOne_eq:
  "cocFindOne st mid cid ct =
     (find (matches (cocKey mid cid ct)) (docs st), st\<lparr>finds := Suc (finds st)\<rparr>)"
  by (simp add: cocFindOne_def findOne_def cocKey_def)

lemma cocCreate_eq:
  "cocCreate st mid content cid ct =
     (if truthy cid then
        (Inr (cocDoc st mid content cid ct),
         st\<lparr>docs := docs st @ [cocDoc st mid content cid ct], next_id := Suc (next_id st),
            creates := Suc (creates st)\<rparr>)
      else (Inl (ValidationError ''coc.id''), st\<lparr>creates := Suc (creates st)\<rparr>))"
  by (simp add: cocCreate_def createDoc_def create_def cocDoc_def Let_def)

lemma matches_cocDoc [simp]:
  "matches (cocKey mid' cid' ct') (cocDoc st mid content cid ct) \<longleftrightarrow>
     mid = mid' \<and> cid = cid' \<and> ct = ct'"
  by (auto simp add: matches_cocKey cocDoc_def)

lemma cocDoc_finds [simp]:
  "cocDoc (st\<lparr>finds := n\<rparr>) mid content cid ct = cocDoc st mid content cid ct"
  by (simp add: cocDoc_def)

lemma coc_cocDoc: "coc (cocDoc st mid content x ct) = \<lparr>coc_id = x, coc_type = ct\<rparr>"
  by (simp add: cocDoc_def)

lemma conversationRecord_cocDoc [simp]:
  "conversationRecord m x ct (cocDoc st (message_id m) (message_content m) x' ct') \<longleftrightarrow>
     x = x' \<and> ct = ct'"
  by (auto simp add: conversationRecord_def cocDoc_def)

lemma find_None_filter: "find P xs = None \<longleftrightarrow> filter P xs = []"
  by (induction xs) auto

lemma find_Some_filter: "find P xs = Some x \<Longrightarrow> filter P xs \<noteq> []"
  by (induction xs) (auto split: if_splits)

lemma length_filter_pos: "filter P xs \<noteq> [] \<longleftrightarrow> 1 \<le> length (filter P xs)"
  by (cases "filter P xs") auto

lemma find_Some_holds: "find P xs = Some x \<Longrightarrow> P x"
  by (induction xs) (auto split: if_splits)

lemma find_app:
  "find P (xs @ ys) = (case find P xs of None \<Rightarrow> find P ys | Some x \<Rightarrow> Some x)"
  by (induction xs) auto

lemma otherPerformersOnly_cocRecords:
  "otherPerformersOnly st mid x ct \<Longrightarrow> cocRecords st mid x ct = []"
  by (auto simp add: otherPerformersOnly_def cocRecords_def filter_empty_conv matches_cocKey
        list_all_iff)

subsection \<open>The loop over the companies\<close>

text \<open>The three ways of one iteration.\<close>

lemma companyLoop_found:
  "find (matches (cocKey (message_id m) (Some x) COC_CONTENT_TYPES_COMPANY)) (docs st) = Some a
   \<Longrightarrow> companyLoop st m (x # xs) = companyLoop (st\<lparr>finds := Suc (finds st)\<rparr>) m xs"
  by (simp add: cocFindOne_eq)

lemma companyLoop_insert:
  "find (matches (cocKey (message_id m) (Some x) COC_CONTENT_TYPES_COMPANY)) (docs st) = None
   \<Longrightarrow> x \<noteq> [] \<Longrightarrow>
   companyLoop st m (x # xs) =
     companyLoop
       (st\<lparr>finds := Suc (finds st),
           docs := docs st @ [cocDoc st (message_id m) (message_content m) (Some x)
                                COC_CONTENT_TYPES_COMPANY],
           next_id := Suc (next_id st), creates := Suc (creates st)\<rparr>) m xs"
  by (simp add: cocFindOne_eq cocCreate_eq)

lemma companyLoop_reject:
  "find (matches (cocKey (message_id m) (Some []) COC_CONTENT_TYPES_COMPANY)) (docs st) = None
   \<Longrightarrow> companyLoop st m ([] # xs) =
         (Inl (ValidationError ''coc.id''),
          st\<lparr>finds := Suc (finds st), creates := Suc (creates st)\<rparr>)"
  by (simp add: cocFindOne_eq cocCreate_eq)

declare companyLoop.simps(2) [simp del]

text \<open>
  The loop only appends to the collection, and what it appends are records for companies
  of the list whose identifier is not empty.
\<close>

lemma companyLoop_new:
  "\<exists>new. docs (snd (companyLoop st m ids)) = docs st @ new \<and>
         (\<forall>d \<in> set new. \<exists>x \<in> set ids.
             x \<noteq> [] \<and> conversationRecord m (Some x) COC_CONTENT_TYPES_COMPANY d)"
proof (induction ids arbitrary: st)
  case Nil
  then show ?case by simp
next
  case (Cons x xs)
  let ?q = "matches (cocKey (message_id m) (Some x) COC_CONTENT_TYPES_COMPANY)"
  let ?P = "\<lambda>ids d. \<exists>x \<in> set ids.
              x \<noteq> [] \<and> conversationRecord m (Some x) COC_CONTENT_TYPES_COMPANY d"
  let ?st1 = "st\<lparr>finds := Suc (finds st)\<rparr>"
  let ?d = "cocDoc st (message_id m) (message_content m) (Some x) COC_CONTENT_TYPES_COMPANY"
  let ?st2 = "st\<lparr>finds := Suc (finds st), docs := docs st @ [?d],
                 next_id := Suc (next_id st), creates := Suc (creates st)\<rparr>"
  consider (found) a where "find ?q (docs st) = Some a"
    | (insert) "find ?q (docs st) = None" "x \<noteq> []"
    | (reject) "find ?q (docs st) = None" "x = []"
    by (cases "find ?q (docs st)") auto
  then show ?case
  proof cases
    case found
    obtain new where "docs (snd (companyLoop ?st1 m xs)) = docs ?st1 @ new"
      and "\<forall>d \<in> set new. ?P xs d"
      using Cons.IH by blast
    then have "docs (snd (companyLoop st m (x # xs))) = docs st @ new \<and>
        (\<forall>d \<in> set new. ?P (x # xs) d)"
      by (simp add: companyLoop_found [OF found])
    then show ?thesis by blast
  next
    case insert
    obtain new where "docs (snd (companyLoop ?st2 m xs)) = docs ?st2 @ new"
      and "\<forall>d \<in> set new. ?P xs d"
      using Cons.IH by blast
    then have "docs (snd (companyLoop st m (x # xs))) = docs st @ (?d # new) \<and>
        (\<forall>d \<in> set (?d # new). ?P (x # xs) d)"
      using insert(2) by (simp add: companyLoop_insert [OF insert])
    then show ?thesis by blast
  next
    case reject
    then have "docs (snd (companyLoop st m (x # xs))) = docs st @ []"
      using companyLoop_reject [of m st xs] by simp
    then show ?thesis by fastforce
  qed
qed

text \<open>
  The number of records for a message at a customer or company after the loop: a company
  of the list gets its record unless it has one, and nothing else changes, when the loop
  comes to its end; when the store rejects an insertion the numbers stay below that.
\<close>

lemma companyLoop_count:
  "length (filter (matches (cocKey mid x ct)) (docs (snd (companyLoop st m ids)))) \<le>
     (if mid = message_id m \<and> ct = COC_CONTENT_TYPES_COMPANY \<and> x \<in> Some ` set ids
      then max 1 (length (filter (matches (cocKey mid x ct)) (docs st)))
      else length (filter (matches (cocKey mid x ct)) (docs st))) \<and>
   (fst (companyLoop st m ids) = Inr () \<longrightarrow>
    length (filter (matches (cocKey mid x ct)) (docs (snd (companyLoop st m ids)))) =
     (if mid = message_id m \<and> ct = COC_CONTENT_TYPES_COMPANY \<and> x \<in> Some ` set ids
      then max 1 (length (filter (matches (cocKey mid x ct)) (docs st)))
      else length (filter (matches (cocKey mid x ct)) (docs st))))"
proof (induction ids arbitrary: st)
  case Nil
  then show ?case by simp
next
  case (Cons y ys)
  let ?q = "matches (cocKey (message_id m) (Some y) COC_CONTENT_TYPES_COMPANY)"
  consider (found) a where "find ?q (docs st) = Some a"
    | (insert) "find ?q (docs st) = None" "y \<noteq> []"
    | (reject) "find ?q (docs st) = None" "y = []"
    by (cases "find ?q (docs st)") auto
  then show ?case
  proof cases
    case found
    then have "filter ?q (docs st) \<noteq> []"
      by (rule find_Some_filter)
    then have "1 \<le> length (filter ?q (docs st))"
      by (simp add: length_filter_pos)
    then show ?thesis
      using Cons.IH [of "st\<lparr>finds := Suc (finds st)\<rparr>"]
      by (auto simp add: companyLoop_found [OF found])
  next
    case insert
    let ?d = "cocDoc st (message_id m) (message_content m) (Some y) COC_CONTENT_TYPES_COMPANY"
    let ?st2 = "st\<lparr>finds := Suc (finds st), docs := docs st @ [?d],
                   next_id := Suc (next_id st), creates := Suc (creates st)\<rparr>"
    let ?k = "matches (cocKey mid x ct)"
    have e: "filter ?q (docs st) = []"
      using insert(1) by (simp add: find_None_filter)
    have head: "length (filter ?k (docs st)) = 0"
      if "mid = message_id m \<and> ct = COC_CONTENT_TYPES_COMPANY \<and> x = Some y"
      using e that by simp
    have c2: "length (filter ?k (docs ?st2)) =
        (if mid = message_id m \<and> ct = COC_CONTENT_TYPES_COMPANY \<and> x = Some y
         then Suc (length (filter ?k (docs st))) else length (filter ?k (docs st)))"
      by auto
    have IH: "length (filter ?k (docs (snd (companyLoop ?st2 m ys)))) \<le>
        (if mid = message_id m \<and> ct = COC_CONTENT_TYPES_COMPANY \<and> x \<in> Some ` set ys
         then max 1 (length (filter ?k (docs ?st2)))
         else length (filter ?k (docs ?st2))) \<and>
      (fst (companyLoop ?st2 m ys) = Inr () \<longrightarrow>
       length (filter ?k (docs (snd (companyLoop ?st2 m ys)))) =
        (if mid = message_id m \<and> ct = COC_CONTENT_TYPES_COMPANY \<and> x \<in> Some ` set ys
         then max 1 (length (filter ?k (docs ?st2)))
         else length (filter ?k (docs ?st2))))"
      by (rule Cons.IH)
    show ?thesis
      unfolding companyLoop_insert [OF insert]
      using IH head unfolding c2
      by (cases "mid = message_id m \<and> ct = COC_CONTENT_TYPES_COMPANY \<and> x = Some y")
         (auto split: if_splits)
  next
    case reject
    then have "companyLoop st m (y # ys) =
        (Inl (ValidationError ''coc.id''),
         st\<lparr>finds := Suc (finds st), creates := Suc (creates st)\<rparr>)"
      using companyLoop_reject [of m st ys] by simp
    then show ?thesis by simp
  qed
qed

text \<open>The loop comes to its end when no company identifier is empty.\<close>

lemma companyLoop_total:
  "\<forall>x \<in> set ids. x \<noteq> [] \<Longrightarrow> fst (companyLoop st m ids) = Inr ()"
proof (induction ids arbitrary: st)
  case Nil
  then show ?case by simp
next
  case (Cons y ys)
  let ?q = "matches (cocKey (message_id m) (Some y) COC_CONTENT_TYPES_COMPANY)"
  from Cons.prems have y: "y \<noteq> []" and ys: "\<forall>x \<in> set ys. x \<noteq> []"
    by simp_all
  show ?case
  proof (cases "find ?q (docs st)")
    case None
    then show ?thesis
      using Cons.IH [OF ys] y by (simp add: companyLoop_insert)
  next
    case (Some a)
    then show ?thesis
      using Cons.IH [OF ys] by (simp add: companyLoop_found)
  qed
qed

lemma companyLoop_error:
  "fst (companyLoop st m ids) = Inl e \<Longrightarrow> e = ValidationError ''coc.id''"
proof (induction ids arbitrary: st)
  case Nil
  then show ?case by simp
next
  case (Cons y ys)
  let ?q = "matches (cocKey (message_id m) (Some y) COC_CONTENT_TYPES_COMPANY)"
  consider (found) a where "find ?q (docs st) = Some a"
    | (insert) "find ?q (docs st) = None" "y \<noteq> []"
    | (reject) "find ?q (docs st) = None" "y = []"
    by (cases "find ?q (docs st)") auto
  then show ?case
  proof cases
    case found
    then show ?thesis
      using Cons by (simp add: companyLoop_found)
  next
    case insert
    then show ?thesis
      using Cons by (simp add: companyLoop_insert)
  next
    case reject
    then show ?thesis
      using Cons.prems companyLoop_reject [of m st ys] by simp
  qed
qed

text \<open>A loop that finds a record for every company changes nothing but the count of queries.\<close>

lemma companyLoop_stable:
  "\<forall>x \<in> set ids.
     filter (matches (cocKey (message_id m) (Some x) COC_CONTENT_TYPES_COMPANY)) (docs st) \<noteq> []
   \<Longrightarrow> companyLoop st m ids = (Inr (), st\<lparr>finds := finds st + length ids\<rparr>)"
proof (induction ids arbitrary: st)
  case Nil
  then show ?case by simp
next
  case (Cons y ys)
  let ?st1 = "st\<lparr>finds := Suc (finds st)\<rparr>"
  obtain a where found:
    "find (matches (cocKey (message_id m) (Some y) COC_CONTENT_TYPES_COMPANY)) (docs st) = Some a"
    using Cons.prems
    by (cases "find (matches (cocKey (message_id m) (Some y) COC_CONTENT_TYPES_COMPANY))
                 (docs st)")
       (auto simp add: find_None_filter)
  have "companyLoop ?st1 m ys = (Inr (), ?st1\<lparr>finds := finds ?st1 + length ys\<rparr>)"
    using Cons.prems by (intro Cons.IH) simp
  then show ?case by (simp add: companyLoop_found [OF found])
qed

text \<open>A blocked loop is rejected and inserts nothing; a rejected loop leaves a blocked one.\<close>

lemma companyLoop_blocked:
  "blocked (docs st) (message_id m) ids \<Longrightarrow>
   fst (companyLoop st m ids) = Inl (ValidationError ''coc.id'') \<and>
   docs (snd (companyLoop st m ids)) = docs st"
proof (induction ids arbitrary: st)
  case Nil
  then show ?case by simp
next
  case (Cons y ys)
  let ?q = "matches (cocKey (message_id m) (Some y) COC_CONTENT_TYPES_COMPANY)"
  show ?case
  proof (cases "find ?q (docs st)")
    case None
    then have "filter ?q (docs st) = []"
      by (simp add: find_None_filter)
    with Cons.prems have "y = []" by simp
    with None show ?thesis
      using companyLoop_reject [of m st ys] by simp
  next
    case (Some a)
    then have "filter ?q (docs st) \<noteq> []"
      by (rule find_Some_filter)
    with Cons.prems have "blocked (docs (st\<lparr>finds := Suc (finds st)\<rparr>)) (message_id m) ys"
      by simp
    then show ?thesis
      using Cons.IH [of "st\<lparr>finds := Suc (finds st)\<rparr>"]
      by (simp add: companyLoop_found [OF Some])
  qed
qed

lemma companyLoop_rejected:
  "fst (companyLoop st m ids) = Inl e \<Longrightarrow>
   blocked (docs (snd (companyLoop st m ids))) (message_id m) ids"
proof (induction ids arbitrary: st)
  case Nil
  then show ?case by simp
next
  case (Cons y ys)
  let ?q = "matches (cocKey (message_id m) (Some y) COC_CONTENT_TYPES_COMPANY)"
  let ?st1 = "st\<lparr>finds := Suc (finds st)\<rparr>"
  let ?d = "cocDoc st (message_id m) (message_content m) (Some y) COC_CONTENT_TYPES_COMPANY"
  let ?st2 = "st\<lparr>finds := Suc (finds st), docs := docs st @ [?d],
                 next_id := Suc (next_id st), creates := Suc (creates st)\<rparr>"
  consider (found) a where "find ?q (docs st) = Some a"
    | (insert) "find ?q (docs st) = None" "y \<noteq> []"
    | (reject) "find ?q (docs st) = None" "y = []"
    by (cases "find ?q (docs st)") auto
  then show ?case
  proof cases
    case found
    have loop: "companyLoop st m (y # ys) = companyLoop ?st1 m ys"
      by (rule companyLoop_found [OF found])
    obtain new where "docs (snd (companyLoop ?st1 m ys)) = docs ?st1 @ new"
      using companyLoop_new by blast
    moreover have "filter ?q (docs st) \<noteq> []"
      using found by (rule find_Some_filter)
    ultimately have "filter ?q (docs (snd (companyLoop ?st1 m ys))) \<noteq> []"
      by simp
    moreover have "blocked (docs (snd (companyLoop ?st1 m ys))) (message_id m) ys"
      using Cons.prems by (intro Cons.IH) (simp add: loop)
    ultimately show ?thesis
      by (simp add: loop)
  next
    case insert
    have loop: "companyLoop st m (y # ys) = companyLoop ?st2 m ys"
      by (rule companyLoop_insert [OF insert])
    obtain new where "docs (snd (companyLoop ?st2 m ys)) = docs ?st2 @ new"
      using companyLoop_new by blast
    then have "filter ?q (docs (snd (companyLoop ?st2 m ys))) \<noteq> []"
      by simp
    moreover have "blocked (docs (snd (companyLoop ?st2 m ys))) (message_id m) ys"
      using Cons.prems by (intro Cons.IH) (simp add: loop)
    ultimately show ?thesis
      by (simp add: loop)
  next
    case reject
    then have "companyLoop st m (y # ys) =
        (Inl (ValidationError ''coc.id''),
         st\<lparr>finds := Suc (finds st), creates := Suc (creates st)\<rparr>)"
      using companyLoop_reject [of m st ys] by simp
    moreover have "filter ?q (docs st) = []"
      using reject(1) by (simp add: find_None_filter)
    ultimately show ?thesis
      using reject(2) by simp
  qed
qed

subsection \<open>One call of \<open>createConversationMessageLog\<close>\<close>

lemma createConversationMessageLog_eq:
  assumes "truthy (customer_id c)"
  shows "createConversationMessageLog st m (Some c) =
     (case companyLoop st m (companyIdList c) of
        (Inl e, st1) \<Rightarrow> (Inl e, st1)
      | (Inr u, st1) \<Rightarrow>
          (case find (matches (cocKey (message_id m) (customer_id c)
                                COC_CONTENT_TYPES_CUSTOMER)) (docs st1) of
             None \<Rightarrow>
               (Inr (Some (cocDoc st1 (message_id m) (message_content m) (customer_id c)
                             COC_CONTENT_TYPES_CUSTOMER)),
                st1\<lparr>finds := Suc (finds st1),
                    docs := docs st1 @ [cocDoc st1 (message_id m) (message_content m)
                                          (customer_id c) COC_CONTENT_TYPES_CUSTOMER],
                    next_id := Suc (next_id st1),
                    creates := Suc (creates st1)\<rparr>)
           | Some foundLog \<Rightarrow> (Inr None, st1\<lparr>finds := Suc (finds st1)\<rparr>)))"
proof -
  have "(case companyIds c of None \<Rightarrow> (Inr (), st)
         | Some ids \<Rightarrow> if length ids > 0 then companyLoop st m ids else (Inr (), st))
        = companyLoop st m (companyIdList c)"
    by (cases "companyIds c") (auto simp add: companyIdList_def)
  with assms show ?thesis
    by (simp add: createConversationMessageLog_def Let_def cocFindOne_eq cocCreate_eq
             split: option.splits sum.splits prod.splits)
qed

text \<open>The three ways of a call for a customer with an identifier.\<close>

lemma conversation_outcome:
  assumes "truthy (customer_id c)"
    and "createConversationMessageLog st m (Some c) = (r, st')"
  obtains
    (rejected) e where "companyLoop st m (companyIdList c) = (Inl e, st')" "r = Inl e"
  | (absent) st1 where "companyLoop st m (companyIdList c) = (Inr (), st1)"
      "cocRecords st1 (message_id m) (customer_id c) COC_CONTENT_TYPES_CUSTOMER = []"
      "r = Inr (Some (cocDoc st1 (message_id m) (message_content m) (customer_id c)
                        COC_CONTENT_TYPES_CUSTOMER))"
      "docs st' = docs st1 @ [cocDoc st1 (message_id m) (message_content m) (customer_id c)
                               COC_CONTENT_TYPES_CUSTOMER]"
  | (found) st1 where "companyLoop st m (companyIdList c) = (Inr (), st1)"
      "cocRecords st1 (message_id m) (customer_id c) COC_CONTENT_TYPES_CUSTOMER \<noteq> []"
      "r = Inr None" "docs st' = docs st1"
proof (cases "companyLoop st m (companyIdList c)")
  case (Pair res st1)
  show ?thesis
  proof (cases res)
    case (Inl e)
    with Pair assms rejected show ?thesis
      by (auto simp add: createConversationMessageLog_eq)
  next
    case (Inr u)
    let ?q = "matches (cocKey (message_id m) (customer_id c) COC_CONTENT_TYPES_CUSTOMER)"
    show ?thesis
    proof (cases "find ?q (docs st1)")
      case None
      then have "cocRecords st1 (message_id m) (customer_id c) COC_CONTENT_TYPES_CUSTOMER = []"
        by (simp add: cocRecords_def find_None_filter)
      with None Pair Inr assms absent [of st1] show ?thesis
        by (auto simp add: createConversationMessageLog_eq)
    next
      case (Some f)
      then have "cocRecords st1 (message_id m) (customer_id c) COC_CONTENT_TYPES_CUSTOMER \<noteq> []"
        by (auto simp add: cocRecords_def dest: find_Some_filter)
      with Some Pair Inr assms found [of st1] show ?thesis
        by (auto simp add: createConversationMessageLog_eq)
    qed
  qed
qed

lemma loop_customer_records:
  "cocRecords (snd (companyLoop st m ids)) mid x COC_CONTENT_TYPES_CUSTOMER =
   cocRecords st mid x COC_CONTENT_TYPES_CUSTOMER"
proof -
  obtain new where new: "docs (snd (companyLoop st m ids)) = docs st @ new"
    and "\<forall>d \<in> set new. \<exists>y \<in> set ids.
           y \<noteq> [] \<and> conversationRecord m (Some y) COC_CONTENT_TYPES_COMPANY d"
    using companyLoop_new by blast
  then have "filter (matches (cocKey mid x COC_CONTENT_TYPES_CUSTOMER)) new = []"
    by (auto simp add: filter_empty_conv conversationRecord_def matches_cocKey)
  with new show ?thesis
    by (simp add: cocRecords_def)
qed

lemma conversation_call:
  assumes "truthy (customer_id c)"
    and "createConversationMessageLog st m (Some c) = (r, st')"
  shows "docs st' = docs st @ inserted st st'"
    and "length (cocRecords st' (message_id m) x ct) \<le>
           (if ct = COC_CONTENT_TYPES_COMPANY \<and> x \<in> Some ` set (companyIdList c) \<or>
               ct = COC_CONTENT_TYPES_CUSTOMER \<and> x = customer_id c
            then max 1 (length (cocRecords st (message_id m) x ct))
            else length (cocRecords st (message_id m) x ct))"
    and "r = Inr v \<Longrightarrow>
         length (cocRecords st' (message_id m) x ct) =
           (if ct = COC_CONTENT_TYPES_COMPANY \<and> x \<in> Some ` set (companyIdList c) \<or>
               ct = COC_CONTENT_TYPES_CUSTOMER \<and> x = customer_id c
            then max 1 (length (cocRecords st (message_id m) x ct))
            else length (cocRecords st (message_id m) x ct))"
    and "r = Inr v \<Longrightarrow>
         fst (companyLoop st m (companyIdList c)) = Inr () \<and>
         v = (if cocRecords st (message_id m) (customer_id c) COC_CONTENT_TYPES_CUSTOMER = []
              then Some (cocDoc (snd (companyLoop st m (companyIdList c))) (message_id m)
                           (message_content m) (customer_id c) COC_CONTENT_TYPES_CUSTOMER)
              else None)"
    and "r = Inr v \<Longrightarrow>
         cocRecords st (message_id m) (customer_id c) COC_CONTENT_TYPES_CUSTOMER = [] \<Longrightarrow>
         inserted st st' \<noteq> [] \<and>
         last (inserted st st') =
           cocDoc (snd (companyLoop st m (companyIdList c))) (message_id m)
             (message_content m) (customer_id c) COC_CONTENT_TYPES_CUSTOMER"
    and "r = Inl e \<Longrightarrow>
         e = ValidationError ''coc.id'' \<and> companyLoop st m (companyIdList c) = (Inl e, st')"
    and "fst (companyLoop st m (companyIdList c)) = Inr () \<Longrightarrow> \<exists>v. r = Inr v"
proof -
  let ?ids = "companyIdList c"
  let ?loop = "companyLoop st m ?ids"
  let ?k = "matches (cocKey (message_id m) x ct)"
  let ?bound = "if ct = COC_CONTENT_TYPES_COMPANY \<and> x \<in> Some ` set ?ids \<or>
               ct = COC_CONTENT_TYPES_CUSTOMER \<and> x = customer_id c
            then max 1 (length (cocRecords st (message_id m) x ct))
            else length (cocRecords st (message_id m) x ct)"
  obtain new where new: "docs (snd ?loop) = docs st @ new"
    using companyLoop_new by blast
  have upper: "length (filter ?k (docs (snd ?loop))) \<le>
      (if ct = COC_CONTENT_TYPES_COMPANY \<and> x \<in> Some ` set ?ids
       then max 1 (length (cocRecords st (message_id m) x ct))
       else length (cocRecords st (message_id m) x ct))"
    using companyLoop_count [of "message_id m" x ct st m ?ids]
    by (auto simp add: cocRecords_def)
  have exact: "length (filter ?k (docs (snd ?loop))) =
      (if ct = COC_CONTENT_TYPES_COMPANY \<and> x \<in> Some ` set ?ids
       then max 1 (length (cocRecords st (message_id m) x ct))
       else length (cocRecords st (message_id m) x ct))"
    if "fst ?loop = Inr ()"
    using companyLoop_count [of "message_id m" x ct st m ?ids] that
    by (auto simp add: cocRecords_def)
  have same: "cocRecords (snd ?loop) (message_id m) (customer_id c) COC_CONTENT_TYPES_CUSTOMER =
              cocRecords st (message_id m) (customer_id c) COC_CONTENT_TYPES_CUSTOMER"
    by (rule loop_customer_records)
  let ?d = "cocDoc (snd ?loop) (message_id m) (message_content m) (customer_id c)
              COC_CONTENT_TYPES_CUSTOMER"
  show "docs st' = docs st @ inserted st st'"
    using assms new by (cases rule: conversation_outcome) (simp_all add: inserted_def)
  show "fst ?loop = Inr () \<Longrightarrow> \<exists>v. r = Inr v"
    using assms by (cases rule: conversation_outcome) simp_all
  show "r = Inl e \<Longrightarrow> e = ValidationError ''coc.id'' \<and> ?loop = (Inl e, st')"
    using assms
  proof (cases rule: conversation_outcome)
    case (rejected e')
    assume "r = Inl e"
    with rejected have "?loop = (Inl e, st')" by simp
    moreover from this have "e = ValidationError ''coc.id''"
      using companyLoop_error [of st m ?ids e] by simp
    ultimately show ?thesis by simp
  qed simp_all
  show "r = Inr v \<Longrightarrow> fst ?loop = Inr () \<and>
         v = (if cocRecords st (message_id m) (customer_id c) COC_CONTENT_TYPES_CUSTOMER = []
              then Some ?d else None)"
    using assms same by (cases rule: conversation_outcome) auto
  show "r = Inr v \<Longrightarrow>
         cocRecords st (message_id m) (customer_id c) COC_CONTENT_TYPES_CUSTOMER = [] \<Longrightarrow>
         inserted st st' \<noteq> [] \<and> last (inserted st st') = ?d"
    using assms same new
    by (cases rule: conversation_outcome) (auto simp add: inserted_def)
  show "length (cocRecords st' (message_id m) x ct) \<le> ?bound"
    using assms
  proof (cases rule: conversation_outcome)
    case (rejected e')
    then show ?thesis
      using upper by (auto simp add: cocRecords_def)
  next
    case (absent st1)
    then have "length (cocRecords st' (message_id m) x ct) =
        length (filter ?k (docs (snd ?loop))) +
        (if x = customer_id c \<and> ct = COC_CONTENT_TYPES_CUSTOMER then 1 else 0)"
      by (auto simp add: cocRecords_def)
    moreover have "cocRecords st (message_id m) (customer_id c) COC_CONTENT_TYPES_CUSTOMER = []"
      using absent same by simp
    ultimately show ?thesis
      using upper by (auto simp add: cocRecords_def)
  next
    case (found st1)
    then have "length (cocRecords st' (message_id m) x ct) =
        length (filter ?k (docs (snd ?loop)))"
      by (simp add: cocRecords_def)
    then show ?thesis
      using upper by auto
  qed
  show "r = Inr v \<Longrightarrow> length (cocRecords st' (message_id m) x ct) = ?bound"
    using assms
  proof (cases rule: conversation_outcome)
    case (absent st1)
    then have "length (cocRecords st' (message_id m) x ct) =
        length (filter ?k (docs (snd ?loop))) +
        (if x = customer_id c \<and> ct = COC_CONTENT_TYPES_CUSTOMER then 1 else 0)"
      by (auto simp add: cocRecords_def)
    moreover have "cocRecords st (message_id m) (customer_id c) COC_CONTENT_TYPES_CUSTOMER = []"
      using absent same by simp
    moreover have "fst ?loop = Inr ()"
      using absent by simp
    ultimately show ?thesis
      using exact by (auto simp add: cocRecords_def)
  next
    case (found st1)
    then have "length (cocRecords st' (message_id m) x ct) =
        length (filter ?k (docs (snd ?loop)))"
      by (simp add: cocRecords_def)
    moreover have "1 \<le> length (cocRecords st (message_id m) (customer_id c)
                                 COC_CONTENT_TYPES_CUSTOMER)"
      using found same by (simp add: cocRecords_def length_filter_pos)
    moreover have "fst ?loop = Inr ()"
      using found by simp
    ultimately show ?thesis
      using exact by auto
  qed simp
qed

lemma conversation_total:
  assumes "truthy (customer_id c)"
    and "createConversationMessageLog st m (Some c) = (r, st')"
    and "\<forall>x \<in> set (companyIdList c). x \<noteq> []"
  shows "\<exists>v. r = Inr v"
  using conversation_call(7) [OF assms(1,2)] companyLoop_total [OF assms(3)] by simp

lemma conversation_inserted:
  assumes "truthy (customer_id c)"
    and "createConversationMessageLog st m (Some c) = (r, st')"
    and "d \<in> set (inserted st st')"
  shows "(\<exists>x \<in> set (companyIdList c).
            x \<noteq> [] \<and> conversationRecord m (Some x) COC_CONTENT_TYPES_COMPANY d) \<or>
         conversationRecord m (customer_id c) COC_CONTENT_TYPES_CUSTOMER d"
proof -
  let ?loop = "companyLoop st m (companyIdList c)"
  obtain new where new: "docs (snd ?loop) = docs st @ new"
    and shape: "\<forall>d \<in> set new. \<exists>x \<in> set (companyIdList c).
                  x \<noteq> [] \<and> conversationRecord m (Some x) COC_CONTENT_TYPES_COMPANY d"
    using companyLoop_new by blast
  have "d \<in> set new \<or> conversationRecord m (customer_id c) COC_CONTENT_TYPES_CUSTOMER d"
    using assms(1,2)
  proof (cases rule: conversation_outcome)
    case (rejected e)
    then show ?thesis using assms(3) new by (simp add: inserted_def)
  next
    case (absent st1)
    then show ?thesis using assms(3) new by (auto simp add: inserted_def)
  next
    case (found st1)
    then show ?thesis using assms(3) new by (simp add: inserted_def)
  qed
  with shape show ?thesis by auto
qed

lemma conversation_inserted_count:
  assumes "truthy (customer_id c)"
    and "createConversationMessageLog st m (Some c) = (r, st')"
  shows "length (filter (\<lambda>d. coc d = \<lparr>coc_id = x, coc_type = ct\<rparr>) (inserted st st')) +
           length (cocRecords st (message_id m) x ct) =
         length (cocRecords st' (message_id m) x ct)"
proof -
  have "\<forall>d \<in> set (inserted st st').
          matches (cocKey (message_id m) x ct) d \<longleftrightarrow> coc d = \<lparr>coc_id = x, coc_type = ct\<rparr>"
  proof
    fix d
    assume "d \<in> set (inserted st st')"
    then obtain y t where "conversationRecord m y t d"
      using conversation_inserted [OF assms] by blast
    then show "matches (cocKey (message_id m) x ct) d \<longleftrightarrow>
               coc d = \<lparr>coc_id = x, coc_type = ct\<rparr>"
      by (auto simp add: conversationRecord_def matches_cocKey)
  qed
  then have "filter (matches (cocKey (message_id m) x ct)) (inserted st st') =
             filter (\<lambda>d. coc d = \<lparr>coc_id = x, coc_type = ct\<rparr>) (inserted st st')"
    by (intro filter_cong) auto
  moreover have "cocRecords st' (message_id m) x ct =
      cocRecords st (message_id m) x ct @
      filter (matches (cocKey (message_id m) x ct)) (inserted st st')"
    using conversation_call(1) [OF assms] by (simp add: cocRecords_def)
  ultimately show ?thesis by simp
qed

text \<open>A second call with the same arguments inserts nothing, and ends as the first did.\<close>

lemma conversation_second:
  assumes "truthy (customer_id c)"
    and "createConversationMessageLog st m (Some c) = (r1, st1)"
  shows "\<exists>st2. createConversationMessageLog st1 m (Some c) =
                 (case r1 of Inl e \<Rightarrow> Inl e | Inr v \<Rightarrow> Inr None, st2) \<and>
               docs st2 = docs st1"
proof (cases r1)
  case (Inl e)
  then have e: "e = ValidationError ''coc.id''"
    and loop: "companyLoop st m (companyIdList c) = (Inl e, st1)"
    using conversation_call(6) [OF assms, of e] by simp_all
  have "blocked (docs (snd (companyLoop st m (companyIdList c)))) (message_id m)
          (companyIdList c)"
    using loop by (intro companyLoop_rejected [of _ _ _ e]) simp
  then have "blocked (docs st1) (message_id m) (companyIdList c)"
    using loop by simp
  then have "fst (companyLoop st1 m (companyIdList c)) = Inl e"
    "docs (snd (companyLoop st1 m (companyIdList c))) = docs st1"
    using companyLoop_blocked [of st1 m "companyIdList c"] e by simp_all
  then have "createConversationMessageLog st1 m (Some c) =
      (Inl e, snd (companyLoop st1 m (companyIdList c)))"
    using assms(1)
    by (cases "companyLoop st1 m (companyIdList c)")
       (simp add: createConversationMessageLog_eq)
  with Inl \<open>docs (snd (companyLoop st1 m (companyIdList c))) = docs st1\<close> show ?thesis
    by simp
next
  case (Inr v)
  have "1 \<le> length (cocRecords st1 (message_id m) (Some x) COC_CONTENT_TYPES_COMPANY)"
    if "x \<in> set (companyIdList c)" for x
    using conversation_call(3) [OF assms Inr, of "Some x" COC_CONTENT_TYPES_COMPANY] that
    by simp
  then have "\<forall>x \<in> set (companyIdList c).
      filter (matches (cocKey (message_id m) (Some x) COC_CONTENT_TYPES_COMPANY)) (docs st1)
        \<noteq> []"
    by (simp add: cocRecords_def length_filter_pos)
  then have loop: "companyLoop st1 m (companyIdList c) =
      (Inr (), st1\<lparr>finds := finds st1 + length (companyIdList c)\<rparr>)"
    by (rule companyLoop_stable)
  have "1 \<le> length (cocRecords st1 (message_id m) (customer_id c) COC_CONTENT_TYPES_CUSTOMER)"
    using conversation_call(3) [OF assms Inr, of "customer_id c" COC_CONTENT_TYPES_CUSTOMER]
    by simp
  then have "filter (matches (cocKey (message_id m) (customer_id c)
                               COC_CONTENT_TYPES_CUSTOMER)) (docs st1) \<noteq> []"
    by (simp add: cocRecords_def length_filter_pos)
  then obtain a where
    "find (matches (cocKey (message_id m) (customer_id c) COC_CONTENT_TYPES_CUSTOMER))
       (docs st1) = Some a"
    by (cases "find (matches (cocKey (message_id m) (customer_id c)
                               COC_CONTENT_TYPES_CUSTOMER)) (docs st1)")
       (auto simp add: find_None_filter)
  with loop assms(1) Inr show ?thesis
    by (simp add: createConversationMessageLog_eq)
qed

subsection \<open>One call of \<open>createSegmentLog\<close>\<close>



section \<open>The claims\<close>

text \<open>
  Claim C1, as amended. For every message, every customer with an identifier and every
  store, two calls of \<open>createConversationMessageLog\<close> in sequence with the same arguments:
  the second call inserts nothing, and it ends as the first did (with no record when the
  first call was not rejected, with the same error when it was). After a first call that
  was not rejected, each target of the call (each company of the customer, and the
  customer) has at least one record for the message: exactly one when the store held at
  most one before the first call, and as many as it held before otherwise. Whether or not
  the first call was rejected, no customer or company has more records for the message
  than that. The first call is not rejected when no company identifier of the customer is
  empty.
\<close>

theorem createConversationMessageLog_twice:
  assumes "truthy (customer_id c)"
    and "createConversationMessageLog st m (Some c) = (r1, st1)"
    and "createConversationMessageLog st1 m (Some c) = (r2, st2)"
  shows "inserted st1 st2 = [] \<and> docs st2 = docs st1 \<and>
         r2 = (case r1 of Inl e \<Rightarrow> Inl e | Inr v \<Rightarrow> Inr None) \<and>
         ((\<exists>v. r1 = Inr v) \<longrightarrow>
            (\<forall>x \<in> set (companyIdList c).
               length (cocRecords st2 (message_id m) (Some x) COC_CONTENT_TYPES_COMPANY) =
                 max 1 (length (cocRecords st (message_id m) (Some x)
                                  COC_CONTENT_TYPES_COMPANY))) \<and>
            length (cocRecords st2 (message_id m) (customer_id c) COC_CONTENT_TYPES_CUSTOMER) =
              max 1 (length (cocRecords st (message_id m) (customer_id c)
                               COC_CONTENT_TYPES_CUSTOMER))) \<and>
         (\<forall>x ct. length (cocRecords st2 (message_id m) x ct) \<le>
                   max 1 (length (cocRecords st (message_id m) x ct))) \<and>
         ((\<forall>x \<in> set (companyIdList c). x \<noteq> []) \<longrightarrow> (\<exists>v. r1 = Inr v))"
proof -
  obtain st2' where
    "createConversationMessageLog st1 m (Some c) =
       (case r1 of Inl e \<Rightarrow> Inl e | Inr v \<Rightarrow> Inr None, st2')"
    and "docs st2' = docs st1"
    using conversation_second [OF assms(1,2)] by blast
  with assms(3) have second: "r2 = (case r1 of Inl e \<Rightarrow> Inl e | Inr v \<Rightarrow> Inr None)"
    and same: "docs st2 = docs st1"
    by simp_all
  have records: "cocRecords st2 (message_id m) x ct = cocRecords st1 (message_id m) x ct"
    for x ct
    using same by (simp add: cocRecords_def)
  have company: "length (cocRecords st2 (message_id m) (Some x) COC_CONTENT_TYPES_COMPANY) =
      max 1 (length (cocRecords st (message_id m) (Some x) COC_CONTENT_TYPES_COMPANY))"
    if "r1 = Inr v" "x \<in> set (companyIdList c)" for v x
    unfolding records
    using conversation_call(3) [OF assms(1,2) that(1), of "Some x" COC_CONTENT_TYPES_COMPANY]
      that(2)
    by simp
  have customer: "length (cocRecords st2 (message_id m) (customer_id c)
                            COC_CONTENT_TYPES_CUSTOMER) =
      max 1 (length (cocRecords st (message_id m) (customer_id c) COC_CONTENT_TYPES_CUSTOMER))"
    if "r1 = Inr v" for v
    unfolding records
    using conversation_call(3) [OF assms(1,2) that, of "customer_id c"
        COC_CONTENT_TYPES_CUSTOMER]
    by simp
  have bound: "length (cocRecords st2 (message_id m) x ct) \<le>
      max 1 (length (cocRecords st (message_id m) x ct))" for x ct
    unfolding records
    using conversation_call(2) [OF assms(1,2), of x ct] by (auto split: if_splits)
  have total: "\<exists>v. r1 = Inr v" if "\<forall>x \<in> set (companyIdList c). x \<noteq> []"
    using conversation_total [OF assms(1,2) that] .
  show ?thesis
    using second same company customer bound total
    by (auto simp add: inserted_def)
qed

text \<open>
  The example customer with the companies \<open>a\<close> and \<open>b\<close>, on the empty store: after two
  calls company \<open>a\<close> and the customer have one record each.
\<close>

theorem createConversationMessageLog_twice_witness:
  "docs (snd (createConversationMessageLog
                (snd (createConversationMessageLog ex_store ex_message (Some ex_customer)))
                ex_message (Some ex_customer))) =
     docs (snd (createConversationMessageLog ex_store ex_message (Some ex_customer))) \<and>
   fst (createConversationMessageLog
          (snd (createConversationMessageLog ex_store ex_message (Some ex_customer)))
          ex_message (Some ex_customer)) = Inr None \<and>
   length (cocRecords
             (snd (createConversationMessageLog
                     (snd (createConversationMessageLog ex_store ex_message (Some ex_customer)))
                     ex_message (Some ex_customer)))
             ''m1'' (Some ''a'') COC_CONTENT_TYPES_COMPANY) = 1 \<and>
   length (cocRecords
             (snd (createConversationMessageLog
                     (snd (createConversationMessageLog ex_store ex_message (Some ex_customer)))
                     ex_message (Some ex_customer)))
             ''m1'' (Some ''c1'') COC_CONTENT_TYPES_CUSTOMER) = 1"
proof -
  have id: "truthy (customer_id ex_customer)" "customer_id ex_customer = Some ''c1''"
    by (simp_all add: ex_customer_def)
  have ids: "companyIdList ex_customer = [''a'', ''b'']"
    by (simp add: ex_customer_def companyIdList_def)
  have none: "cocRecords ex_store ''m1'' x ct = []" for x ct
    by (simp add: cocRecords_def ex_store_def)
  have mid: "message_id ex_message = ''m1''"
    by (simp add: ex_message_def)
  show ?thesis
    using createConversationMessageLog_twice [OF id(1), of ex_store ex_message
        "fst (createConversationMessageLog ex_store ex_message (Some ex_customer))"
        "snd (createConversationMessageLog ex_store ex_message (Some ex_customer))"
        "fst (createConversationMessageLog
                (snd (createConversationMessageLog ex_store ex_message (Some ex_customer)))
                ex_message (Some ex_customer))"
        "snd (createConversationMessageLog
                (snd (createConversationMessageLog ex_store ex_message (Some ex_customer)))
                ex_message (Some ex_customer))"]
    by (auto simp add: ids none mid id(2))
qed

text \<open>
  Claim C1 as stated fails in two ways. On a store that already holds two records for
  the message at the customer, as two concurrent calls can leave it, the customer still
  has two records after two calls in sequence, not exactly one. And for a customer whose
  companies are \<open>a\<close> and the empty string, on the empty store, the insertion for the empty
  identifier is rejected: both calls end in the validation error, and the customer has no
  record after them.
\<close>

theorem createConversationMessageLog_twice_counterexample:
  "length (cocRecords
             (snd (createConversationMessageLog
                     (snd (createConversationMessageLog ex_store_duplicates ex_message
                             (Some ex_customer_alone)))
                     ex_message (Some ex_customer_alone)))
             ''m1'' (Some ''c1'') COC_CONTENT_TYPES_CUSTOMER) = 2 \<and>
   fst (createConversationMessageLog ex_store ex_message (Some ex_customer_empty_company)) =
     Inl (ValidationError ''coc.id'') \<and>
   fst (createConversationMessageLog
          (snd (createConversationMessageLog ex_store ex_message
                  (Some ex_customer_empty_company)))
          ex_message (Some ex_customer_empty_company)) =
     Inl (ValidationError ''coc.id'') \<and>
   cocRecords
     (snd (createConversationMessageLog
             (snd (createConversationMessageLog ex_store ex_message
                     (Some ex_customer_empty_company)))
             ex_message (Some ex_customer_empty_company)))
     ''m1'' (Some ''c1'') COC_CONTENT_TYPES_CUSTOMER = []"
proof -
  have alone: "truthy (customer_id ex_customer_alone)"
    "customer_id ex_customer_alone = Some ''c1''" "companyIdList ex_customer_alone = []"
    by (simp_all add: ex_customer_alone_def companyIdList_def)
  have mid: "message_id ex_message = ''m1''"
    by (simp add: ex_message_def)
  have dup: "filter (matches (cocKey ''m1'' (Some ''c1'') COC_CONTENT_TYPES_CUSTOMER))
               (docs ex_store_duplicates) = docs ex_store_duplicates"
    "length (docs ex_store_duplicates) = 2"
    by (simp_all add: ex_store_duplicates_def matches_cocKey cocDoc_def)
  have stable: "createConversationMessageLog st ex_message (Some ex_customer_alone) =
      (Inr None, st\<lparr>finds := Suc (finds st)\<rparr>)" if "docs st = docs ex_store_duplicates" for st
  proof -
    have "filter (matches (cocKey ''m1'' (Some ''c1'') COC_CONTENT_TYPES_CUSTOMER)) (docs st)
            \<noteq> []"
      using dup that by auto
    then obtain a where
      "find (matches (cocKey ''m1'' (Some ''c1'') COC_CONTENT_TYPES_CUSTOMER)) (docs st) = Some a"
      by (cases "find (matches (cocKey ''m1'' (Some ''c1'') COC_CONTENT_TYPES_CUSTOMER))
                   (docs st)")
         (auto simp add: find_None_filter)
    then show ?thesis
      by (simp add: createConversationMessageLog_eq [OF alone(1)] alone(2,3) mid)
  qed
  have first: "length (cocRecords
             (snd (createConversationMessageLog
                     (snd (createConversationMessageLog ex_store_duplicates ex_message
                             (Some ex_customer_alone)))
                     ex_message (Some ex_customer_alone)))
             ''m1'' (Some ''c1'') COC_CONTENT_TYPES_CUSTOMER) = 2"
    using dup by (simp add: stable cocRecords_def)
  have empty: "truthy (customer_id ex_customer_empty_company)"
    "customer_id ex_customer_empty_company = Some ''c1''"
    "companyIdList ex_customer_empty_company = [''a'', '''']"
    by (simp_all add: ex_customer_empty_company_def companyIdList_def)
  let ?a = "cocDoc ex_store ''m1'' ''hello'' (Some ''a'') COC_CONTENT_TYPES_COMPANY"
  let ?S1 = "\<lparr>docs = [?a], next_id = 1, clock = 0, finds = 2, creates = 2\<rparr>"
  let ?S2 = "\<lparr>docs = [?a], next_id = 1, clock = 0, finds = 4, creates = 3\<rparr>"
  have call1: "createConversationMessageLog ex_store ex_message
                 (Some ex_customer_empty_company) = (Inl (ValidationError ''coc.id''), ?S1)"
    by (simp add: createConversationMessageLog_eq [OF empty(1)] empty(3) companyLoop.simps
          cocFindOne_eq cocCreate_eq ex_store_def ex_message_def cocDoc_def matches_cocKey)
  have call2: "createConversationMessageLog ?S1 ex_message
                 (Some ex_customer_empty_company) = (Inl (ValidationError ''coc.id''), ?S2)"
    by (simp add: createConversationMessageLog_eq [OF empty(1)] empty(3) companyLoop.simps
          cocFindOne_eq cocCreate_eq ex_store_def ex_message_def cocDoc_def matches_cocKey)
  have none: "cocRecords ?S2 ''m1'' (Some ''c1'') COC_CONTENT_TYPES_CUSTOMER = []"
    by (simp add: cocRecords_def)
  show ?thesis
    unfolding call1 fst_conv snd_conv call2
    using first none by simp
qed




text \<open>
  Claim C3. For every message and every store, \<open>createConversationMessageLog\<close> called with
  a customer that is absent, or whose \<open>_id\<close> is absent or empty, ends in the error of its
  first statement, and the store it leaves is the store it was given: no record is
  inserted, and neither \<open>findOne\<close> nor \<open>create\<close> has been called (the counters \<open>finds\<close> and
  \<open>creates\<close> are part of the store). The error is the \<open>Error\<close> object the source throws;
  the specification names its kind InvalidArgument.
\<close>

theorem createConversationMessageLog_requires_customer:
  assumes "customer = None \<or> (\<exists>c. customer = Some c \<and> \<not> truthy (customer_id c))"
  shows "createConversationMessageLog st message customer =
           (Inl (Error (CHR 0x27 # ''customer'' @ CHR 0x27 #
                        '' must be supplied when adding activity log for conversations'')),
            st)"
proof (cases customer)
  case None
  then show ?thesis by (simp add: createConversationMessageLog_def)
next
  case (Some c)
  with assms have "\<not> truthy (customer_id c)" by simp
  with Some show ?thesis
    by (simp add: createConversationMessageLog_def)
qed

text \<open>The three ways of lacking a customer, on the empty store.\<close>

theorem createConversationMessageLog_requires_customer_witness:
  "createConversationMessageLog ex_store ex_message None =
     (Inl (Error (CHR 0x27 # ''customer'' @ CHR 0x27 #
                  '' must be supplied when adding activity log for conversations'')),
      ex_store) \<and>
   createConversationMessageLog ex_store ex_message
       (Some \<lparr>customer_id = None, companyIds = Some [''a'']\<rparr>) =
     (Inl (Error (CHR 0x27 # ''customer'' @ CHR 0x27 #
                  '' must be supplied when adding activity log for conversations'')),
      ex_store) \<and>
   createConversationMessageLog ex_store ex_message
       (Some \<lparr>customer_id = Some [], companyIds = Some [''a'']\<rparr>) =
     (Inl (Error (CHR 0x27 # ''customer'' @ CHR 0x27 #
                  '' must be supplied when adding activity log for conversations'')),
      ex_store)"
  using createConversationMessageLog_requires_customer [of None ex_store ex_message]
    createConversationMessageLog_requires_customer
      [of "Some \<lparr>customer_id = None, companyIds = Some [''a'']\<rparr>" ex_store ex_message]
    createConversationMessageLog_requires_customer
      [of "Some \<lparr>customer_id = Some [], companyIds = Some [''a'']\<rparr>" ex_store ex_message]
  by simp

text \<open>
  Claim C4. For every input that the store accepts (a document with a non-empty \<open>coc.id\<close>),
  \<open>createDoc\<close> called without a performer stores a record performed by System, with no
  performer identifier; whatever the input, a record it yields is performed by System. In
  particular \<open>createCustomerRegistrationLog\<close>, for a customer with a non-empty \<open>_id\<close> and an
  absent user, or a user whose \<open>_id\<close> is absent or empty, stores a record whose
  \<open>performedBy\<close> is \<open>{type: System}\<close>.
\<close>

theorem createDoc_default_performer:
  "(fst (createDoc st None a c) = Inr d \<longrightarrow>
      performedBy d =
        \<lparr>performer_type = ACTIVITY_PERFORMER_TYPES_SYSTEM, performer_id = None\<rparr>) \<and>
   (truthy (coc_id c) \<longrightarrow>
      (\<exists>d. fst (createDoc st None a c) = Inr d \<and>
           performedBy d =
             \<lparr>performer_type = ACTIVITY_PERFORMER_TYPES_SYSTEM, performer_id = None\<rparr> \<and>
           docs (snd (createDoc st None a c)) = docs st @ [d])) \<and>
   (registrant_id customer \<noteq> [] \<and>
    (user = None \<or> (\<exists>u. user = Some u \<and> \<not> truthy (user_id u))) \<longrightarrow>
      (\<exists>d. fst (createCustomerRegistrationLog st customer user) = Inr d \<and>
           performedBy d =
             \<lparr>performer_type = ACTIVITY_PERFORMER_TYPES_SYSTEM, performer_id = None\<rparr> \<and>
           docs (snd (createCustomerRegistrationLog st customer user)) = docs st @ [d]))"
  by (auto simp add: createDoc_def create_def Let_def createCustomerRegistrationLog_def
        registrationPerformer_def split: if_splits)

text \<open>A registration by no user, and by a user without identifier, on the empty store.\<close>

theorem createDoc_default_performer_witness:
  "(\<exists>d. fst (createDoc ex_store None
               \<lparr>activity_type = ACTIVITY_TYPES_CUSTOMER,
                activity_action = ACTIVITY_ACTIONS_CREATE,
                activity_content = ''Acme'', activity_id = ''c1''\<rparr>
               \<lparr>coc_id = Some ''c1'', coc_type = COC_CONTENT_TYPES_CUSTOMER\<rparr>) = Inr d \<and>
        performedBy d =
          \<lparr>performer_type = ACTIVITY_PERFORMER_TYPES_SYSTEM, performer_id = None\<rparr>) \<and>
   (\<exists>d. fst (createCustomerRegistrationLog ex_store ex_registrant None) = Inr d \<and>
        performedBy d =
          \<lparr>performer_type = ACTIVITY_PERFORMER_TYPES_SYSTEM, performer_id = None\<rparr> \<and>
        docs (snd (createCustomerRegistrationLog ex_store ex_registrant None)) = [d]) \<and>
   (\<exists>d. fst (createCustomerRegistrationLog ex_store ex_registrant
               (Some \<lparr>user_id = None\<rparr>)) = Inr d \<and>
        performedBy d =
          \<lparr>performer_type = ACTIVITY_PERFORMER_TYPES_SYSTEM, performer_id = None\<rparr>)"
proof -
  let ?a = "\<lparr>activity_type = ACTIVITY_TYPES_CUSTOMER,
            activity_action = ACTIVITY_ACTIONS_CREATE,
            activity_content = ''Acme'', activity_id = ''c1''\<rparr>"
  let ?c = "\<lparr>coc_id = Some ''c1'', coc_type = COC_CONTENT_TYPES_CUSTOMER\<rparr>"
  have valid: "truthy (coc_id ?c)" "registrant_id ex_registrant \<noteq> []"
    by (simp_all add: ex_registrant_def)
  have empty: "docs ex_store = []"
    by (simp add: ex_store_def)
  have user: "\<exists>u. Some \<lparr>user_id = None\<rparr> = Some u \<and> \<not> truthy (user_id u)"
    by simp
  show ?thesis
    using createDoc_default_performer
        [of ex_store ?a ?c "projr (fst (createDoc ex_store None ?a ?c))" ex_registrant None]
      createDoc_default_performer
        [of ex_store ?a ?c "projr (fst (createDoc ex_store None ?a ?c))" ex_registrant
            "Some \<lparr>user_id = None\<rparr>"]
      valid empty user
    by auto
qed




text \<open>
  Claim C6. A record that \<open>cocFindOne\<close> returns is performed by Customer, and when every
  record of the store for a message and a customer or company (activity
  ConversationMessage, Create, the message's identifier; coc of that type and identifier) is
  performed by System or by User, \<open>cocFindOne\<close> finds none: such records are not taken for
  duplicates, and the \<open>cocCreate\<close> that follows the check inserts a record performed by
  Customer for that customer or company (whose identifier, being that of a stored record,
  is not empty). So a call of \<open>createConversationMessageLog\<close> that is not rejected inserts
  and returns a record performed by Customer for such a customer, and inserts one for such
  a company of the customer; the call is not rejected when the customer has an identifier
  and none of its company identifiers is empty.
\<close>

theorem cocFindOne_customer_performed_only:
  "(fst (cocFindOne st mid x ct) = Some f \<longrightarrow>
      performer_type (performedBy f) = ACTIVITY_PERFORMER_TYPES_CUSTOMER) \<and>
   (otherPerformersOnly st mid x ct \<longrightarrow> fst (cocFindOne st mid x ct) = None) \<and>
   (otherPerformersOnly st mid x ct \<and> truthy x \<longrightarrow>
      (\<exists>d st2. cocCreate (snd (cocFindOne st mid x ct)) mid content x ct = (Inr d, st2) \<and>
              docs st2 = docs st @ [d] \<and>
              performedBy d = \<lparr>performer_type = ACTIVITY_PERFORMER_TYPES_CUSTOMER,
                               performer_id = None\<rparr> \<and>
              coc d = \<lparr>coc_id = x, coc_type = ct\<rparr>)) \<and>
   (truthy (customer_id c) \<and>
    createConversationMessageLog st m (Some c) = (Inr v, st') \<longrightarrow>
      (otherPerformersOnly st (message_id m) (customer_id c) COC_CONTENT_TYPES_CUSTOMER \<longrightarrow>
         (\<exists>d. v = Some d \<and>
              conversationRecord m (customer_id c) COC_CONTENT_TYPES_CUSTOMER d \<and>
              inserted st st' \<noteq> [] \<and> last (inserted st st') = d)) \<and>
      (y \<in> set (companyIdList c) \<and>
       otherPerformersOnly st (message_id m) (Some y) COC_CONTENT_TYPES_COMPANY \<longrightarrow>
         (\<exists>d. filter (\<lambda>d. coc d = \<lparr>coc_id = Some y, coc_type = COC_CONTENT_TYPES_COMPANY\<rparr>)
                 (inserted st st') = [d] \<and>
              conversationRecord m (Some y) COC_CONTENT_TYPES_COMPANY d))) \<and>
   (truthy (customer_id c) \<and> (\<forall>y \<in> set (companyIdList c). y \<noteq> []) \<longrightarrow>
      (\<exists>v st'. createConversationMessageLog st m (Some c) = (Inr v, st')))"
proof (intro conjI impI)
  assume "fst (cocFindOne st mid x ct) = Some f"
  then have "matches (cocKey mid x ct) f"
    by (auto simp add: cocFindOne_eq dest: find_Some_holds)
  then show "performer_type (performedBy f) = ACTIVITY_PERFORMER_TYPES_CUSTOMER"
    by (simp add: matches_cocKey)
next
  assume "otherPerformersOnly st mid x ct"
  then have "cocRecords st mid x ct = []"
    by (rule otherPerformersOnly_cocRecords)
  then show "fst (cocFindOne st mid x ct) = None"
    by (simp add: cocFindOne_eq find_None_filter cocRecords_def)
next
  assume "otherPerformersOnly st mid x ct \<and> truthy x"
  then show "\<exists>d st2. cocCreate (snd (cocFindOne st mid x ct)) mid content x ct = (Inr d, st2) \<and>
              docs st2 = docs st @ [d] \<and>
              performedBy d = \<lparr>performer_type = ACTIVITY_PERFORMER_TYPES_CUSTOMER,
                               performer_id = None\<rparr> \<and>
              coc d = \<lparr>coc_id = x, coc_type = ct\<rparr>"
    by (simp add: cocFindOne_eq cocCreate_eq cocDoc_def)
next
  assume a: "truthy (customer_id c) \<and>
             createConversationMessageLog st m (Some c) = (Inr v, st')"
    and "otherPerformersOnly st (message_id m) (customer_id c) COC_CONTENT_TYPES_CUSTOMER"
  then have none: "cocRecords st (message_id m) (customer_id c) COC_CONTENT_TYPES_CUSTOMER = []"
    by (intro otherPerformersOnly_cocRecords)
  from a have id: "truthy (customer_id c)"
    and call: "createConversationMessageLog st m (Some c) = (Inr v, st')"
    by simp_all
  let ?d = "cocDoc (snd (companyLoop st m (companyIdList c))) (message_id m)
              (message_content m) (customer_id c) COC_CONTENT_TYPES_CUSTOMER"
  have "v = Some ?d" "inserted st st' \<noteq> []" "last (inserted st st') = ?d"
    using conversation_call(4,5) [OF id call, of v] none by simp_all
  moreover have "conversationRecord m (customer_id c) COC_CONTENT_TYPES_CUSTOMER ?d"
    by simp
  ultimately show "\<exists>d. v = Some d \<and>
              conversationRecord m (customer_id c) COC_CONTENT_TYPES_CUSTOMER d \<and>
              inserted st st' \<noteq> [] \<and> last (inserted st st') = d"
    by blast
next
  let ?new = "filter (\<lambda>d. coc d = \<lparr>coc_id = Some y, coc_type = COC_CONTENT_TYPES_COMPANY\<rparr>)
                (inserted st st')"
  assume a: "truthy (customer_id c) \<and>
             createConversationMessageLog st m (Some c) = (Inr v, st')"
    and b: "y \<in> set (companyIdList c) \<and>
            otherPerformersOnly st (message_id m) (Some y) COC_CONTENT_TYPES_COMPANY"
  then have none: "cocRecords st (message_id m) (Some y) COC_CONTENT_TYPES_COMPANY = []"
    by (intro otherPerformersOnly_cocRecords) simp
  from a have id: "truthy (customer_id c)"
    and call: "createConversationMessageLog st m (Some c) = (Inr v, st')"
    by simp_all
  have "length (cocRecords st' (message_id m) (Some y) COC_CONTENT_TYPES_COMPANY) = 1"
    using conversation_call(3) [OF id call, of v "Some y" COC_CONTENT_TYPES_COMPANY] b none
    by simp
  then have "length ?new = 1"
    using conversation_inserted_count [OF id call, of "Some y" COC_CONTENT_TYPES_COMPANY] none
    by simp
  then obtain d where d: "?new = [d]"
    by (cases ?new) auto
  then have "d \<in> set ?new" by simp
  then have "d \<in> set (inserted st st')"
    and "coc d = \<lparr>coc_id = Some y, coc_type = COC_CONTENT_TYPES_COMPANY\<rparr>"
    by simp_all
  then have "conversationRecord m (Some y) COC_CONTENT_TYPES_COMPANY d"
    using conversation_inserted [OF id call, of d] by (auto simp add: conversationRecord_def)
  with d show "\<exists>d. ?new = [d] \<and> conversationRecord m (Some y) COC_CONTENT_TYPES_COMPANY d"
    by blast
next
  assume a: "truthy (customer_id c) \<and> (\<forall>y \<in> set (companyIdList c). y \<noteq> [])"
  obtain r st' where call: "createConversationMessageLog st m (Some c) = (r, st')"
    by (cases "createConversationMessageLog st m (Some c)")
  then obtain v where "r = Inr v"
    using conversation_total [of c st m r st'] a by blast
  with call show "\<exists>v st'. createConversationMessageLog st m (Some c) = (Inr v, st')"
    by blast
qed

text \<open>
  The check finds the record performed by Customer. On a store that holds the log of the
  example message at customer \<open>c1\<close> twice, performed by System and by a user, it finds
  nothing, the insertion that follows succeeds, and the call returns a new record; on a
  store that holds the log at company \<open>a\<close> performed by System, the call inserts one more
  for \<open>a\<close>.
\<close>

theorem cocFindOne_customer_performed_only_witness:
  "(\<exists>f. fst (cocFindOne ex_store_customer_logged ''m1'' (Some ''c1'')
               COC_CONTENT_TYPES_CUSTOMER) = Some f \<and>
        performer_type (performedBy f) = ACTIVITY_PERFORMER_TYPES_CUSTOMER) \<and>
   length (docs ex_store_other_performers) = 2 \<and>
   otherPerformersOnly ex_store_other_performers ''m1'' (Some ''c1'')
     COC_CONTENT_TYPES_CUSTOMER \<and>
   fst (cocFindOne ex_store_other_performers ''m1'' (Some ''c1'')
          COC_CONTENT_TYPES_CUSTOMER) = None \<and>
   (\<exists>d st2. cocCreate (snd (cocFindOne ex_store_other_performers ''m1'' (Some ''c1'')
                             COC_CONTENT_TYPES_CUSTOMER))
              ''m1'' ''hello'' (Some ''c1'') COC_CONTENT_TYPES_CUSTOMER = (Inr d, st2) \<and>
           length (docs st2) = 3) \<and>
   (\<exists>d. fst (createConversationMessageLog ex_store_other_performers ex_message
               (Some ex_customer_alone)) = Inr (Some d) \<and>
        conversationRecord ex_message (Some ''c1'') COC_CONTENT_TYPES_CUSTOMER d) \<and>
   otherPerformersOnly ex_store_company_by_system ''m1'' (Some ''a'')
     COC_CONTENT_TYPES_COMPANY \<and>
   (\<exists>d. filter (\<lambda>d. coc d = \<lparr>coc_id = Some ''a'', coc_type = COC_CONTENT_TYPES_COMPANY\<rparr>)
           (inserted ex_store_company_by_system
              (snd (createConversationMessageLog ex_store_company_by_system ex_message
                      (Some ex_customer)))) = [d] \<and>
        conversationRecord ex_message (Some ''a'') COC_CONTENT_TYPES_COMPANY d)"
proof -
  have mid: "message_id ex_message = ''m1''"
    by (simp add: ex_message_def)
  have found: "fst (cocFindOne ex_store_customer_logged ''m1'' (Some ''c1'')
                      COC_CONTENT_TYPES_CUSTOMER) =
               Some (cocDoc ex_store ''m1'' ''hello'' (Some ''c1'') COC_CONTENT_TYPES_CUSTOMER)"
    by (simp add: cocFindOne_eq ex_store_customer_logged_def)
  have others: "otherPerformersOnly ex_store_other_performers ''m1'' (Some ''c1'')
                  COC_CONTENT_TYPES_CUSTOMER"
    by (simp add: otherPerformersOnly_def ex_store_other_performers_def cocDoc_def)
  have system: "otherPerformersOnly ex_store_company_by_system ''m1'' (Some ''a'')
                  COC_CONTENT_TYPES_COMPANY"
    by (simp add: otherPerformersOnly_def ex_store_company_by_system_def cocDoc_def)
  have alone: "truthy (customer_id ex_customer_alone)"
    "customer_id ex_customer_alone = Some ''c1''" "companyIdList ex_customer_alone = []"
    by (simp_all add: ex_customer_alone_def companyIdList_def)
  have both: "truthy (customer_id ex_customer)" "customer_id ex_customer = Some ''c1''"
    "companyIdList ex_customer = [''a'', ''b'']"
    by (simp_all add: ex_customer_def companyIdList_def)
  have two: "length (docs ex_store_other_performers) = 2"
    by (simp add: ex_store_other_performers_def)
  note C = cocFindOne_customer_performed_only
  obtain v1 s1 where call1: "createConversationMessageLog ex_store_other_performers ex_message
                               (Some ex_customer_alone) = (Inr v1, s1)"
    using C [of ex_store_other_performers "''m1''" "Some ''c1''" COC_CONTENT_TYPES_CUSTOMER
              undefined "''hello''" ex_customer_alone ex_message undefined undefined "''a''"]
      alone
    by auto
  obtain v2 s2 where call2: "createConversationMessageLog ex_store_company_by_system ex_message
                               (Some ex_customer) = (Inr v2, s2)"
    using C [of ex_store_company_by_system "''m1''" "Some ''a''" COC_CONTENT_TYPES_COMPANY
              undefined "''hello''" ex_customer ex_message undefined undefined "''a''"]
      both
    by auto
  show ?thesis
    using C [of ex_store_customer_logged "''m1''" "Some ''c1''" COC_CONTENT_TYPES_CUSTOMER
              "cocDoc ex_store ''m1'' ''hello'' (Some ''c1'') COC_CONTENT_TYPES_CUSTOMER"
              "''hello''" ex_customer_alone ex_message undefined undefined "''a''"]
      C [of ex_store_other_performers "''m1''" "Some ''c1''" COC_CONTENT_TYPES_CUSTOMER
              undefined "''hello''" ex_customer_alone ex_message v1 s1 "''a''"]
      C [of ex_store_company_by_system "''m1''" "Some ''a''" COC_CONTENT_TYPES_COMPANY
              undefined "''hello''" ex_customer ex_message v2 s2 "''a''"]
      found others system alone both two call1 call2
    by (auto simp add: mid)
qed

text \<open>
  Claim C7. For every segment and every store, \<open>createSegmentLog\<close> called with an absent
  target ends in the error of its first statement and leaves the store as it was given: no
  record is inserted and the store has not been called.
\<close>

theorem createSegmentLog_requires_target:
  "createSegmentLog st segment None = (Inl (Error ''customer must be supplied''), st)"
  by (simp add: createSegmentLog_def)

text \<open>
  Claim C8. For a customer with an identifier and \<open>companyIds = [c1, c2]\<close>, on a store with
  no record for the message at \<open>c1\<close>, at \<open>c2\<close> or at the customer, the first call inserts
  at most three records, in this order and each performed by Customer with no performer
  identifier: the record for company \<open>c1\<close>, the one for company \<open>c2\<close> (unless \<open>c2\<close> is \<open>c1\<close>),
  and the one for the customer, which it returns. It inserts all of them when neither
  company identifier is empty; an empty identifier makes the store reject the insertion,
  and the call ends there with the records inserted so far. A second call with the same
  arguments inserts nothing.
\<close>

theorem createConversationMessageLog_two_companies:
  assumes "truthy (customer_id c)"
    and "companyIds c = Some [c1, c2]"
    and "cocRecords st (message_id m) (Some c1) COC_CONTENT_TYPES_COMPANY = []"
    and "cocRecords st (message_id m) (Some c2) COC_CONTENT_TYPES_COMPANY = []"
    and "cocRecords st (message_id m) (customer_id c) COC_CONTENT_TYPES_CUSTOMER = []"
    and "createConversationMessageLog st m (Some c) = (r1, st1)"
    and "createConversationMessageLog st1 m (Some c) = (r2, st2)"
  shows "map coc (inserted st st1) =
           (if c1 = [] then []
            else if c2 = c1
            then [\<lparr>coc_id = Some c1, coc_type = COC_CONTENT_TYPES_COMPANY\<rparr>,
                  \<lparr>coc_id = customer_id c, coc_type = COC_CONTENT_TYPES_CUSTOMER\<rparr>]
            else if c2 = []
            then [\<lparr>coc_id = Some c1, coc_type = COC_CONTENT_TYPES_COMPANY\<rparr>]
            else [\<lparr>coc_id = Some c1, coc_type = COC_CONTENT_TYPES_COMPANY\<rparr>,
                  \<lparr>coc_id = Some c2, coc_type = COC_CONTENT_TYPES_COMPANY\<rparr>,
                  \<lparr>coc_id = customer_id c, coc_type = COC_CONTENT_TYPES_CUSTOMER\<rparr>]) \<and>
         (\<forall>d \<in> set (inserted st st1).
            performedBy d = \<lparr>performer_type = ACTIVITY_PERFORMER_TYPES_CUSTOMER,
                             performer_id = None\<rparr> \<and>
            activity d = \<lparr>activity_type = ACTIVITY_TYPES_CONVERSATION_MESSAGE,
                          activity_action = ACTIVITY_ACTIONS_CREATE,
                          activity_content = message_content m,
                          activity_id = message_id m\<rparr>) \<and>
         length (inserted st st1) \<le> 3 \<and>
         (c1 \<noteq> [] \<and> c2 \<noteq> [] \<longrightarrow> r1 = Inr (Some (last (inserted st st1)))) \<and>
         (c1 = [] \<or> c2 = [] \<longrightarrow> r1 = Inl (ValidationError ''coc.id'')) \<and>
         inserted st1 st2 = []"
proof -
  have ids: "companyIdList c = [c1, c2]"
    using assms(2) by (simp add: companyIdList_def)
  have none: "find (matches (cocKey (message_id m) (Some c1) COC_CONTENT_TYPES_COMPANY))
                (docs st) = None"
    "find (matches (cocKey (message_id m) (Some c2) COC_CONTENT_TYPES_COMPANY)) (docs st) = None"
    "find (matches (cocKey (message_id m) (customer_id c) COC_CONTENT_TYPES_CUSTOMER))
       (docs st) = None"
    using assms(3-5) by (simp_all add: find_None_filter cocRecords_def)
  have call: "createConversationMessageLog st m (Some c) = (r1, st1)"
    by (rule assms(6))
  have first: "map coc (inserted st st1) =
           (if c1 = [] then []
            else if c2 = c1
            then [\<lparr>coc_id = Some c1, coc_type = COC_CONTENT_TYPES_COMPANY\<rparr>,
                  \<lparr>coc_id = customer_id c, coc_type = COC_CONTENT_TYPES_CUSTOMER\<rparr>]
            else if c2 = []
            then [\<lparr>coc_id = Some c1, coc_type = COC_CONTENT_TYPES_COMPANY\<rparr>]
            else [\<lparr>coc_id = Some c1, coc_type = COC_CONTENT_TYPES_COMPANY\<rparr>,
                  \<lparr>coc_id = Some c2, coc_type = COC_CONTENT_TYPES_COMPANY\<rparr>,
                  \<lparr>coc_id = customer_id c, coc_type = COC_CONTENT_TYPES_CUSTOMER\<rparr>]) \<and>
         (c1 \<noteq> [] \<and> c2 \<noteq> [] \<longrightarrow> r1 = Inr (Some (last (inserted st st1)))) \<and>
         (c1 = [] \<or> c2 = [] \<longrightarrow> r1 = Inl (ValidationError ''coc.id''))"
  proof -
    consider (first_empty) "c1 = []"
      | (same) "c1 \<noteq> []" "c2 = c1"
      | (second_empty) "c1 \<noteq> []" "c2 \<noteq> c1" "c2 = []"
      | (both) "c1 \<noteq> []" "c2 \<noteq> c1" "c2 \<noteq> []"
      by blast
    then show ?thesis
    proof cases
      case first_empty
      then show ?thesis
        using call none
        unfolding createConversationMessageLog_eq [OF assms(1)] ids
        by (auto simp add: companyLoop.simps cocFindOne_eq cocCreate_eq inserted_def)
    next
      case same
      then show ?thesis
        using call none
        unfolding createConversationMessageLog_eq [OF assms(1)] ids
        by (auto simp add: companyLoop.simps cocFindOne_eq cocCreate_eq find_app inserted_def
              coc_cocDoc)
    next
      case second_empty
      then show ?thesis
        using call none
        unfolding createConversationMessageLog_eq [OF assms(1)] ids
        by (auto simp add: companyLoop.simps cocFindOne_eq cocCreate_eq find_app inserted_def
              coc_cocDoc)
    next
      case both
      then show ?thesis
        using call none
        unfolding createConversationMessageLog_eq [OF assms(1)] ids
        by (auto simp add: companyLoop.simps cocFindOne_eq cocCreate_eq find_app inserted_def
              coc_cocDoc)
    qed
  qed
  have shape: "\<forall>d \<in> set (inserted st st1).
            performedBy d = \<lparr>performer_type = ACTIVITY_PERFORMER_TYPES_CUSTOMER,
                             performer_id = None\<rparr> \<and>
            activity d = \<lparr>activity_type = ACTIVITY_TYPES_CONVERSATION_MESSAGE,
                          activity_action = ACTIVITY_ACTIONS_CREATE,
                          activity_content = message_content m,
                          activity_id = message_id m\<rparr>"
    using conversation_inserted [OF assms(1,6)]
    by (auto simp add: conversationRecord_def)
  have "length (map coc (inserted st st1)) \<le> 3"
    using first by (simp split: if_splits)
  then have le: "length (inserted st st1) \<le> 3"
    by simp
  have "inserted st1 st2 = []"
    using conversation_second [OF assms(1,6)] assms(7) by (auto simp add: inserted_def)
  then show ?thesis
    using first shape le by blast
qed

text \<open>
  The example customer with the companies \<open>a\<close> and \<open>b\<close>, on the empty store: three
  records, then none. The customer with the companies \<open>a\<close> and the empty string: the
  record for \<open>a\<close> only, and the call is rejected.
\<close>

theorem createConversationMessageLog_two_companies_witness:
  "map coc (inserted ex_store
              (snd (createConversationMessageLog ex_store ex_message (Some ex_customer)))) =
     [\<lparr>coc_id = Some ''a'', coc_type = COC_CONTENT_TYPES_COMPANY\<rparr>,
      \<lparr>coc_id = Some ''b'', coc_type = COC_CONTENT_TYPES_COMPANY\<rparr>,
      \<lparr>coc_id = Some ''c1'', coc_type = COC_CONTENT_TYPES_CUSTOMER\<rparr>] \<and>
   inserted (snd (createConversationMessageLog ex_store ex_message (Some ex_customer)))
     (snd (createConversationMessageLog
             (snd (createConversationMessageLog ex_store ex_message (Some ex_customer)))
             ex_message (Some ex_customer))) = [] \<and>
   map coc (inserted ex_store
              (snd (createConversationMessageLog ex_store ex_message
                      (Some ex_customer_empty_company)))) =
     [\<lparr>coc_id = Some ''a'', coc_type = COC_CONTENT_TYPES_COMPANY\<rparr>] \<and>
   fst (createConversationMessageLog ex_store ex_message (Some ex_customer_empty_company)) =
     Inl (ValidationError ''coc.id'')"
proof -
  have id: "truthy (customer_id ex_customer)" "customer_id ex_customer = Some ''c1''"
    "truthy (customer_id ex_customer_empty_company)"
    by (simp_all add: ex_customer_def ex_customer_empty_company_def)
  have ids: "companyIds ex_customer = Some [''a'', ''b'']"
    "companyIds ex_customer_empty_company = Some [''a'', '''']"
    by (simp_all add: ex_customer_def ex_customer_empty_company_def)
  have none: "cocRecords ex_store (message_id ex_message) x ct = []" for x ct
    by (simp add: cocRecords_def ex_store_def)
  show ?thesis
    using createConversationMessageLog_two_companies [OF id(1) ids(1) none none none, of
        "fst (createConversationMessageLog ex_store ex_message (Some ex_customer))"
        "snd (createConversationMessageLog ex_store ex_message (Some ex_customer))"
        "fst (createConversationMessageLog
                (snd (createConversationMessageLog ex_store ex_message (Some ex_customer)))
                ex_message (Some ex_customer))"
        "snd (createConversationMessageLog
                (snd (createConversationMessageLog ex_store ex_message (Some ex_customer)))
                ex_message (Some ex_customer))"]
      createConversationMessageLog_two_companies [OF id(3) ids(2) none none none, of
        "fst (createConversationMessageLog ex_store ex_message
                (Some ex_customer_empty_company))"
        "snd (createConversationMessageLog ex_store ex_message
                (Some ex_customer_empty_company))"
        "fst (createConversationMessageLog
                (snd (createConversationMessageLog ex_store ex_message
                        (Some ex_customer_empty_company)))
                ex_message (Some ex_customer_empty_company))"
        "snd (createConversationMessageLog
                (snd (createConversationMessageLog ex_store ex_message
                        (Some ex_customer_empty_company)))
                ex_message (Some ex_customer_empty_company))"]
    by (simp add: id(2))
qed

text \<open>
  Claim C9. Within one call of \<open>createConversationMessageLog\<close> for a customer with an
  identifier, a company identifier of \<open>customer.companyIds\<close>, however often it occurs in the
  list, gets at most one record inserted: none when the store held a record for the
  message at that company, and exactly one when it held none and the call is not rejected.
  Each iteration's check sees the records the earlier iterations inserted. The call is
  not rejected when no company identifier of the list is empty.
\<close>

theorem companyIds_repeated_once:
  assumes "truthy (customer_id c)"
    and "x \<in> set (companyIdList c)"
    and "createConversationMessageLog st m (Some c) = (r, st')"
  shows "length (filter (\<lambda>d. coc d = \<lparr>coc_id = Some x, coc_type = COC_CONTENT_TYPES_COMPANY\<rparr>)
                   (inserted st st')) \<le> 1 \<and>
         (cocRecords st (message_id m) (Some x) COC_CONTENT_TYPES_COMPANY \<noteq> [] \<longrightarrow>
            filter (\<lambda>d. coc d = \<lparr>coc_id = Some x, coc_type = COC_CONTENT_TYPES_COMPANY\<rparr>)
              (inserted st st') = []) \<and>
         ((\<exists>v. r = Inr v) \<and>
          cocRecords st (message_id m) (Some x) COC_CONTENT_TYPES_COMPANY = [] \<longrightarrow>
            length (filter (\<lambda>d. coc d = \<lparr>coc_id = Some x,
                                          coc_type = COC_CONTENT_TYPES_COMPANY\<rparr>)
                      (inserted st st')) = 1) \<and>
         ((\<forall>y \<in> set (companyIdList c). y \<noteq> []) \<longrightarrow> (\<exists>v. r = Inr v))"
proof -
  let ?new = "filter (\<lambda>d. coc d = \<lparr>coc_id = Some x, coc_type = COC_CONTENT_TYPES_COMPANY\<rparr>)
                (inserted st st')"
  let ?before = "cocRecords st (message_id m) (Some x) COC_CONTENT_TYPES_COMPANY"
  let ?after = "cocRecords st' (message_id m) (Some x) COC_CONTENT_TYPES_COMPANY"
  have sum: "length ?new + length ?before = length ?after"
    by (rule conversation_inserted_count [OF assms(1,3)])
  have upper: "length ?after \<le> max 1 (length ?before)"
    using conversation_call(2) [OF assms(1,3), of "Some x" COC_CONTENT_TYPES_COMPANY] assms(2)
    by simp
  have exact: "length ?after = max 1 (length ?before)" if "r = Inr v" for v
    using conversation_call(3) [OF assms(1,3) that, of "Some x" COC_CONTENT_TYPES_COMPANY]
      assms(2)
    by simp
  have "length ?new \<le> 1"
    using sum upper by arith
  moreover have "?new = []" if "?before \<noteq> []"
  proof -
    from that have "1 \<le> length ?before"
      by (cases ?before) auto
    then have "length ?new = 0"
      using sum upper by arith
    then show ?thesis by simp
  qed
  moreover have "length ?new = 1" if "r = Inr v" "?before = []" for v
    using sum exact [OF that(1)] that(2) by simp
  moreover have "\<exists>v. r = Inr v" if "\<forall>y \<in> set (companyIdList c). y \<noteq> []"
    using conversation_total [OF assms(1,3) that] .
  ultimately show ?thesis
    by blast
qed

text \<open>
  The company \<open>a\<close> twice in the list, on the empty store: one record for \<open>a\<close>. The same
  on a store that holds the record for \<open>a\<close>: none.
\<close>

theorem companyIds_repeated_once_witness:
  "count_list (companyIdList ex_customer_repeated) ''a'' = 2 \<and>
   length (filter (\<lambda>d. coc d = \<lparr>coc_id = Some ''a'', coc_type = COC_CONTENT_TYPES_COMPANY\<rparr>)
             (inserted ex_store
                (snd (createConversationMessageLog ex_store ex_message
                        (Some ex_customer_repeated))))) = 1 \<and>
   filter (\<lambda>d. coc d = \<lparr>coc_id = Some ''a'', coc_type = COC_CONTENT_TYPES_COMPANY\<rparr>)
     (inserted ex_store_company_logged
        (snd (createConversationMessageLog ex_store_company_logged ex_message
                (Some ex_customer_repeated)))) = []"
proof -
  have id: "truthy (customer_id ex_customer_repeated)"
    by (simp add: ex_customer_repeated_def)
  have ids: "companyIdList ex_customer_repeated = [''a'', ''b'', ''a'']"
    by (simp add: ex_customer_repeated_def companyIdList_def)
  have mem: "''a'' \<in> set (companyIdList ex_customer_repeated)"
    by (simp add: ids)
  have none: "cocRecords ex_store (message_id ex_message) (Some ''a'')
                COC_CONTENT_TYPES_COMPANY = []"
    by (simp add: cocRecords_def ex_store_def)
  have some: "cocRecords ex_store_company_logged (message_id ex_message) (Some ''a'')
                COC_CONTENT_TYPES_COMPANY \<noteq> []"
    by (simp add: cocRecords_def ex_store_company_logged_def ex_message_def)
  show ?thesis
    using companyIds_repeated_once [OF id mem, of ex_store ex_message
        "fst (createConversationMessageLog ex_store ex_message (Some ex_customer_repeated))"
        "snd (createConversationMessageLog ex_store ex_message (Some ex_customer_repeated))"]
      companyIds_repeated_once [OF id mem, of ex_store_company_logged ex_message
        "fst (createConversationMessageLog ex_store_company_logged ex_message
                (Some ex_customer_repeated))"
        "snd (createConversationMessageLog ex_store_company_logged ex_message
                (Some ex_customer_repeated))"]
      none some
    by (simp add: ids)
qed

text \<open>
  Claim C10. For a customer with an identifier, the duplicate check for the customer is
  made when the loop over the companies has come to its end, on the store as the loop has
  left it. When that check finds a record, the call returns no record: neither the record
  found nor a company record inserted earlier in the call. When it finds none, the call
  returns the customer record it has just created, which is the last record inserted; so
  the call returns a record only when the store held none for the message at the
  customer. When the store rejects an insertion of the loop, the check is not made and
  the call ends in that error; the loop comes to its end when no company identifier of
  the customer is empty.
\<close>

theorem createConversationMessageLog_result:
  assumes "truthy (customer_id c)"
    and "createConversationMessageLog st m (Some c) = (r, st')"
  shows "(fst (companyLoop st m (companyIdList c)) = Inr () \<longrightarrow>
            (fst (cocFindOne (snd (companyLoop st m (companyIdList c))) (message_id m)
                    (customer_id c) COC_CONTENT_TYPES_CUSTOMER) \<noteq> None \<longrightarrow> r = Inr None) \<and>
            (fst (cocFindOne (snd (companyLoop st m (companyIdList c))) (message_id m)
                    (customer_id c) COC_CONTENT_TYPES_CUSTOMER) = None \<longrightarrow>
               (\<exists>d. r = Inr (Some d) \<and>
                    conversationRecord m (customer_id c) COC_CONTENT_TYPES_CUSTOMER d \<and>
                    inserted st st' \<noteq> [] \<and> last (inserted st st') = d))) \<and>
         (\<forall>e. fst (companyLoop st m (companyIdList c)) = Inl e \<longrightarrow>
               r = Inl e \<and> e = ValidationError ''coc.id'') \<and>
         (\<forall>d. r = Inr (Some d) \<longrightarrow>
               cocRecords st (message_id m) (customer_id c) COC_CONTENT_TYPES_CUSTOMER = []) \<and>
         ((\<forall>x \<in> set (companyIdList c). x \<noteq> []) \<longrightarrow>
            fst (companyLoop st m (companyIdList c)) = Inr ())"
proof -
  let ?loop = "companyLoop st m (companyIdList c)"
  let ?check = "fst (cocFindOne (snd ?loop) (message_id m) (customer_id c)
                       COC_CONTENT_TYPES_CUSTOMER)"
  have check: "?check = None \<longleftrightarrow>
      cocRecords (snd ?loop) (message_id m) (customer_id c) COC_CONTENT_TYPES_CUSTOMER = []"
    by (simp add: cocFindOne_eq find_None_filter cocRecords_def)
  have same: "cocRecords (snd ?loop) (message_id m) (customer_id c) COC_CONTENT_TYPES_CUSTOMER =
              cocRecords st (message_id m) (customer_id c) COC_CONTENT_TYPES_CUSTOMER"
    by (rule loop_customer_records)
  obtain new where new: "docs (snd ?loop) = docs st @ new"
    using companyLoop_new by blast
  have total: "fst ?loop = Inr ()" if "\<forall>x \<in> set (companyIdList c). x \<noteq> []"
    using that by (rule companyLoop_total)
  from assms show ?thesis
  proof (cases rule: conversation_outcome)
    case (rejected e)
    then have "e = ValidationError ''coc.id''"
      using companyLoop_error [of st m "companyIdList c" e] by simp
    with rejected total show ?thesis by auto
  next
    case (absent st1)
    then have "inserted st st' \<noteq> []" "last (inserted st st') =
        cocDoc st1 (message_id m) (message_content m) (customer_id c)
          COC_CONTENT_TYPES_CUSTOMER"
      using new by (simp_all add: inserted_def)
    with absent check same show ?thesis by auto
  next
    case (found st1)
    with check show ?thesis by auto
  qed
qed

text \<open>
  On a store that holds the customer's record and no company record, the call inserts the
  two company records and returns nothing; on the empty store it returns the customer's
  record; with an empty company identifier it ends in the validation error.
\<close>

theorem createConversationMessageLog_result_witness:
  "fst (createConversationMessageLog ex_store_customer_logged ex_message (Some ex_customer)) =
     Inr None \<and>
   length (inserted ex_store_customer_logged
             (snd (createConversationMessageLog ex_store_customer_logged ex_message
                     (Some ex_customer)))) = 2 \<and>
   (\<exists>d. fst (createConversationMessageLog ex_store ex_message (Some ex_customer)) =
          Inr (Some d) \<and>
        conversationRecord ex_message (Some ''c1'') COC_CONTENT_TYPES_CUSTOMER d) \<and>
   fst (createConversationMessageLog ex_store ex_message (Some ex_customer_empty_company)) =
     Inl (ValidationError ''coc.id'')"
proof -
  have id: "truthy (customer_id ex_customer)" "customer_id ex_customer = Some ''c1''"
    "truthy (customer_id ex_customer_empty_company)"
    by (simp_all add: ex_customer_def ex_customer_empty_company_def)
  have ids: "companyIdList ex_customer = [''a'', ''b'']"
    "companyIdList ex_customer_empty_company = [''a'', '''']"
    by (simp_all add: ex_customer_def ex_customer_empty_company_def companyIdList_def)
  have loop1: "fst (companyLoop ex_store_customer_logged ex_message [''a'', ''b'']) = Inr ()"
    "fst (companyLoop ex_store ex_message [''a'', ''b'']) = Inr ()"
    by (simp_all add: companyLoop_total)
  have found: "fst (cocFindOne (snd (companyLoop ex_store_customer_logged ex_message
                       [''a'', ''b''])) (message_id ex_message) (Some ''c1'')
                 COC_CONTENT_TYPES_CUSTOMER) \<noteq> None"
    by (simp add: companyLoop.simps ex_store_customer_logged_def ex_message_def ex_store_def
          cocFindOne_eq cocCreate_eq)
  have absent: "fst (cocFindOne (snd (companyLoop ex_store ex_message [''a'', ''b'']))
                 (message_id ex_message) (Some ''c1'') COC_CONTENT_TYPES_CUSTOMER) = None"
    by (simp add: companyLoop.simps ex_message_def ex_store_def cocFindOne_eq cocCreate_eq)
  have loop2: "fst (companyLoop ex_store ex_message [''a'', '''']) =
                 Inl (ValidationError ''coc.id'')"
    by (simp add: companyLoop.simps ex_message_def ex_store_def cocFindOne_eq cocCreate_eq)
  have two: "length (inserted ex_store_customer_logged
             (snd (createConversationMessageLog ex_store_customer_logged ex_message
                     (Some ex_customer)))) = 2"
    unfolding createConversationMessageLog_eq [OF id(1)] ids
    by (simp add: companyLoop.simps inserted_def ex_customer_def
          ex_store_customer_logged_def ex_message_def ex_store_def cocFindOne_eq cocCreate_eq)
  note T = createConversationMessageLog_result
  have r1: "fst (createConversationMessageLog ex_store_customer_logged ex_message
                   (Some ex_customer)) = Inr None"
    using T [OF id(1), of ex_store_customer_logged ex_message
        "fst (createConversationMessageLog ex_store_customer_logged ex_message (Some ex_customer))"
        "snd (createConversationMessageLog ex_store_customer_logged ex_message (Some ex_customer))"]
      found loop1(1)
    by (simp add: ids id(2))
  have r2: "\<exists>d. fst (createConversationMessageLog ex_store ex_message (Some ex_customer)) =
          Inr (Some d) \<and>
        conversationRecord ex_message (Some ''c1'') COC_CONTENT_TYPES_CUSTOMER d"
    using T [OF id(1), of ex_store ex_message
        "fst (createConversationMessageLog ex_store ex_message (Some ex_customer))"
        "snd (createConversationMessageLog ex_store ex_message (Some ex_customer))"]
      absent loop1(2)
    by (simp add: ids id(2))
  have r3: "fst (createConversationMessageLog ex_store ex_message
                   (Some ex_customer_empty_company)) = Inl (ValidationError ''coc.id'')"
    using T [OF id(3), of ex_store ex_message
        "fst (createConversationMessageLog ex_store ex_message
                (Some ex_customer_empty_company))"
        "snd (createConversationMessageLog ex_store ex_message
                (Some ex_customer_empty_company))"]
      loop2
    by (simp add: ids)
  show ?thesis
    using r1 r2 r3 two by blast
qed

end
